(* ===== verification/Prelude.thy ===== *)
theory Prelude
  imports Main
begin

text \<open>
  Shared vocabulary of the development: the JavaScript string and array built-ins
  that \<open>src/src/avro/AvroInput.tsx\<close> calls, written out with the clamping rules of
  the ECMAScript library, and the list lemmas the component theories share.
  A JavaScript string is a sequence of UTF-16 code units; the model takes one
  Isabelle \<open>char\<close> per code unit, so \<open>length\<close> is the source's \<open>.length\<close>.
  Only the two separator characters of \<open>getCurrentStack\<close> (space and newline) and
  the placeholder \<open>'.'\<close> of \<open>getCursorXY\<close> are ever inspected by the code.
\<close>

named_theorems js_simps \<open>evaluation rules of the modelled JavaScript built-ins\<close>

type_synonym jstr = string

text \<open>The two characters of the regular expression \<open>/\n| /\<close>.\<close>

definition is_sep :: "char \<Rightarrow> bool" where
  "is_sep c \<longleftrightarrow> c = CHR ''\<newline>'' \<or> c = CHR '' ''"

text \<open>\<open>s.substring(0, n)\<close> for a caret offset \<open>n \<ge> 0\<close>: the end is clamped to the length.\<close>

definition js_substring0 :: "jstr \<Rightarrow> nat \<Rightarrow> jstr" where
  "js_substring0 s n = take n s"

text \<open>
  \<open>s.slice(0, -n)\<close>: a negative end counts from the length and is clamped at 0; but
  \<open>-0\<close> is \<open>0\<close>, so \<open>s.slice(0, -0)\<close> is the empty string, not \<open>s\<close>.
\<close>

definition js_slice_neg :: "jstr \<Rightarrow> nat \<Rightarrow> jstr" where
  "js_slice_neg s n = (if n = 0 then [] else take (length s - n) s)"

text \<open>\<open>s.substr(start, len)\<close>: \<open>len\<close> code units from \<open>start\<close>, both clamped.\<close>

definition js_substr :: "jstr \<Rightarrow> nat \<Rightarrow> nat \<Rightarrow> jstr" where
  "js_substr s start len = take len (drop start s)"

text \<open>\<open>s.substr(start)\<close>: everything from \<open>start\<close> on.\<close>

definition js_substr_from :: "jstr \<Rightarrow> nat \<Rightarrow> jstr" where
  "js_substr_from s start = drop start s"

text \<open>
  \<open>s.split(/\n| /)\<close>: the segments between separators, in order; the last segment
  is the one still open when the scan ends, so the result is never empty. The
  accumulator \<open>cur\<close> is the segment being scanned, as in a left-to-right loop.
\<close>

fun split_acc :: "jstr \<Rightarrow> jstr \<Rightarrow> jstr list" where
  "split_acc cur [] = [cur]"
| "split_acc cur (c # cs) =
     (if is_sep c then cur # split_acc [] cs else split_acc (cur @ [c]) cs)"

definition js_split_sep :: "jstr \<Rightarrow> jstr list" where
  "js_split_sep s = split_acc [] s"

text \<open>
  \<open>arr[i]\<close> on a JavaScript array: \<open>undefined\<close> (here \<open>None\<close>) out of range; a
  property read on \<open>undefined\<close> is a \<open>TypeError\<close>.
\<close>

definition js_index :: "'a list \<Rightarrow> nat \<Rightarrow> 'a option" where
  "js_index xs i = (if i < length xs then Some (xs ! i) else None)"

text \<open>
  \<open>arr[0] = x\<close>: writes slot 0, and on an empty array creates it (a JavaScript
  array grows on a write past its end).
\<close>

definition js_set0 :: "'a list \<Rightarrow> 'a \<Rightarrow> 'a list" where
  "js_set0 xs x = (if xs = [] then [x] else xs[0 := x])"

datatype js_error = TypeError

text \<open>The reference reading of the last segment: the longest separator-free suffix.\<close>

definition trailing_run :: "jstr \<Rightarrow> jstr" where
  "trailing_run s = rev (takeWhile (\<lambda>c. \<not> is_sep c) (rev s))"

declare js_substring0_def [js_simps] js_substr_from_def [js_simps]
  js_substr_def [js_simps] js_index_def [js_simps]

subsection \<open>Lemmas on the built-ins\<close>

lemma is_sep_simps [simp]:
  "is_sep CHR '' ''" "is_sep CHR ''\<newline>''"
  by (simp_all add: is_sep_def)

lemma split_acc_nonempty [simp]: "split_acc cur s \<noteq> []"
  by (induction cur s rule: split_acc.induct) auto

lemma js_split_sep_nonempty [simp]: "js_split_sep s \<noteq> []"
  by (simp add: js_split_sep_def)

lemma last_split_acc_no_sep:
  "\<forall>c \<in> set s. \<not> is_sep c \<Longrightarrow> last (split_acc cur s) = cur @ s"
  by (induction cur s rule: split_acc.induct) auto

lemma trailing_run_append_sep:
  "is_sep c \<Longrightarrow> trailing_run (xs @ c # ys) = trailing_run ys"
proof (induction ys rule: rev_induct)
  case Nil
  then show ?case by (simp add: trailing_run_def)
next
  case (snoc y ys)
  then show ?case by (simp add: trailing_run_def)
qed

lemma trailing_run_after_sep: "u = [] \<or> is_sep (last u) \<Longrightarrow> trailing_run u = []"
  using trailing_run_append_sep [of "last u" "butlast u" "[]"]
  by (cases "u = []") (simp_all add: trailing_run_def)

lemma trailing_run_no_sep:
  assumes "\<forall>c \<in> set s. \<not> is_sep c"
  shows "trailing_run s = s"
proof -
  from assms have "takeWhile (\<lambda>c. \<not> is_sep c) (rev s) = rev s"
    by (simp add: takeWhile_eq_all_conv)
  then show ?thesis by (simp only: trailing_run_def rev_rev_ident)
qed

text \<open>The scan's last segment is the trailing run of what it has seen.\<close>

lemma last_split_acc:
  "\<forall>c \<in> set cur. \<not> is_sep c \<Longrightarrow> last (split_acc cur s) = trailing_run (cur @ s)"
proof (induction cur s rule: split_acc.induct)
  case (1 cur)
  then show ?case by (simp add: trailing_run_no_sep)
next
  case (2 cur c cs)
  show ?case
  proof (cases "is_sep c")
    case True
    then have "last (split_acc cur (c # cs)) = trailing_run cs"
      using "2.IH"(1) by simp
    with True show ?thesis by (simp add: trailing_run_append_sep)
  next
    case False
    with "2.prems" "2.IH"(2) show ?thesis by simp
  qed
qed

lemma last_js_split_sep: "last (js_split_sep s) = trailing_run s"
  by (simp add: js_split_sep_def last_split_acc)

lemma trailing_run_suffix: "\<exists>u. s = u @ trailing_run s"
proof -
  let ?P = "\<lambda>c. \<not> is_sep c"
  have "rev s = takeWhile ?P (rev s) @ dropWhile ?P (rev s)"
    by simp
  then have "s = rev (dropWhile ?P (rev s)) @ trailing_run s"
    by (metis rev_append rev_rev_ident trailing_run_def)
  then show ?thesis by blast
qed

lemma trailing_run_no_sep_chars: "c \<in> set (trailing_run s) \<Longrightarrow> \<not> is_sep c"
  by (auto simp: trailing_run_def dest: set_takeWhileD)

lemma trailing_run_idem [simp]: "trailing_run (trailing_run s) = trailing_run s"
  by (simp add: trailing_run_no_sep trailing_run_no_sep_chars)

lemma js_set0_length [simp]: "length (js_set0 xs x) = max 1 (length xs)"
  by (cases xs) (simp_all add: js_set0_def)

lemma js_set0_nth0 [simp]: "js_set0 xs x ! 0 = x"
  by (simp add: js_set0_def)

lemma js_set0_nonempty [simp]: "js_set0 xs x \<noteq> []"
  by (simp add: js_set0_def)

lemma map_fst_mark [simp]:
  "map fst (map (\<lambda>(x, i). (x, P i)) (zip xs [0..<length xs])) = xs"
  by (rule nth_equalityI) auto

lemma trailing_run_append_no_sep:
  assumes "\<forall>c \<in> set ys. \<not> is_sep c"
  shows "trailing_run (xs @ ys) = trailing_run xs @ ys"
proof -
  have "takeWhile (\<lambda>c. \<not> is_sep c) (rev ys @ rev xs) = rev ys @ takeWhile (\<lambda>c. \<not> is_sep c) (rev xs)"
    using assms by (intro takeWhile_append2) auto
  then show ?thesis by (simp add: trailing_run_def)
qed

lemma trailing_run_butlast:
  assumes "w \<noteq> []" and "\<not> is_sep (last w)"
  shows "trailing_run (butlast w) = butlast (trailing_run w)"
proof -
  from assms(1) obtain w' c where w: "w = w' @ [c]"
    by (cases w rule: rev_cases) auto
  with assms(2) have "trailing_run w = trailing_run w' @ [c]"
    by (simp add: trailing_run_append_no_sep)
  with w show ?thesis by simp
qed

lemma trailing_run_nonempty_last:
  "trailing_run w \<noteq> [] \<Longrightarrow> w \<noteq> [] \<and> \<not> is_sep (last w)"
  by (cases w rule: rev_cases) (auto simp: trailing_run_def)

lemma js_slice_neg_length [simp]:
  "0 < n \<Longrightarrow> length (js_slice_neg s n) = length s - n"
  by (simp add: js_slice_neg_def)

lemma js_slice_neg_suffix:
  "0 < length t \<Longrightarrow> js_slice_neg (u @ t) (length t) = u"
  by (simp add: js_slice_neg_def)

lemma js_substr_all [simp]: "js_substr s start (length s) = drop start s"
  by (simp add: js_substr_def)

lemma js_slice_neg_one: "js_slice_neg s 1 = butlast s"
  by (simp add: js_slice_neg_def butlast_conv_take)

end
