(* ===== verification/Stack.thy ===== *)
theory Stack
  imports Prelude
begin

text \<open>
  The token helpers of the composition controller, \<open>AvroInput.getCurrentStack\<close>
  and \<open>AvroInput.getStackRange\<close> (\<open>src/src/avro/AvroInput.tsx\<close>, lines 155--170),
  and the transliteration function they call. The function \<open>avro.parse\<close> is imported
  from \<open>./avro-lib\<close>, which is not part of the sources: it is a parameter of type
  \<open>translit\<close> everywhere, and a lemma that needs \<open>parse '' = ''\<close> says so.
\<close>

type_synonym translit = "jstr \<Rightarrow> jstr"

definition parse_total :: "translit \<Rightarrow> bool" where
  "parse_total parse \<longleftrightarrow> parse [] = []"

text \<open>
  \<^verbatim>\<open>getCurrentStack(value, selection) {
  const subString = value.substring(0, selection);
  const words = subString.split(/\n| /);
  return words[words.length - 1]; }\<close>
  \<open>words\<close> is never empty, so the index is in range.
\<close>

definition getCurrentStack :: "jstr \<Rightarrow> nat \<Rightarrow> jstr" where
  "getCurrentStack value selection =
     (let subString = js_substring0 value selection;
          words = js_split_sep subString
      in words ! (length words - 1))"

text \<open>
  \<open>getStackRange\<close> is the caret offset after replacing the stack, ending at the
  caret, by its transliteration.
\<close>

definition getStackRange :: "translit \<Rightarrow> jstr \<Rightarrow> jstr \<Rightarrow> nat \<Rightarrow> nat" where
  "getStackRange parse stack val selection =
     (if 0 < length stack then
        (let subValue = js_substring0 val selection;
             valWithoutStack = js_slice_neg subValue (length stack);
             withParsedStack = valWithoutStack @ parse stack
         in length withParsedStack)
      else selection)"

subsection \<open>The current run\<close>

lemma getCurrentStack_trailing_run:
  "getCurrentStack value sel = trailing_run (take sel value)"
proof -
  have "js_split_sep (take sel value) \<noteq> []" by simp
  then have "js_split_sep (take sel value) ! (length (js_split_sep (take sel value)) - 1)
      = last (js_split_sep (take sel value))"
    by (simp add: last_conv_nth)
  then show ?thesis
    by (simp add: getCurrentStack_def js_substring0_def last_js_split_sep)
qed

lemma trailing_run_maximal:
  assumes "s = u @ trailing_run s"
  shows "u = [] \<or> is_sep (last u)"
proof -
  let ?P = "\<lambda>c. \<not> is_sep c"
  have split: "rev s = takeWhile ?P (rev s) @ dropWhile ?P (rev s)" by simp
  from assms have "rev s = rev (trailing_run s) @ rev u"
    by (metis rev_append)
  then have "rev s = takeWhile ?P (rev s) @ rev u"
    by (simp add: trailing_run_def)
  then have ru: "rev u = dropWhile ?P (rev s)"
    using split by (metis same_append_eq)
  show ?thesis
  proof (cases "u = []")
    case False
    then have "rev u \<noteq> []" by simp
    with ru have "\<not> ?P (hd (rev u))" by (metis hd_dropWhile)
    with False show ?thesis by (simp add: hd_rev)
  qed simp
qed

lemma getStackRange_eq:
  "0 < length stack \<Longrightarrow>
   getStackRange parse stack val sel = length (take sel val) - length stack + length (parse stack)"
  by (simp add: getStackRange_def js_substring0_def)

subsection \<open>Properties of the current run\<close>

text \<open>
  C3. \<open>getCurrentStack\<close> returns the maximal separator-free run of the text that
  ends at the caret: it is a suffix of the text before the caret, holds no space or
  newline, and is preceded by the start of the text or by a separator.
\<close>

theorem getCurrentStack_maximal_run:
  "\<exists>u. take sel v = u @ getCurrentStack v sel \<and> (u = [] \<or> is_sep (last u))
       \<and> (\<forall>c \<in> set (getCurrentStack v sel). \<not> is_sep c)"
proof -
  obtain u where u: "take sel v = u @ trailing_run (take sel v)"
    using trailing_run_suffix by blast
  then have "u = [] \<or> is_sep (last u)"
    by (rule trailing_run_maximal)
  with u show ?thesis
    by (auto simp: getCurrentStack_trailing_run dest: trailing_run_no_sep_chars)
qed

theorem getCurrentStack_maximal_run_witness:
  "getCurrentStack ''x ami'' 5 = ''ami''
   \<and> (\<exists>u. take 5 ''x ami'' = u @ getCurrentStack ''x ami'' 5 \<and> (u = [] \<or> is_sep (last u))
         \<and> (\<forall>c \<in> set (getCurrentStack ''x ami'' 5). \<not> is_sep c))"
proof -
  have g: "getCurrentStack ''x ami'' 5 = ''ami''"
    by (simp add: getCurrentStack_def js_split_sep_def js_substring0_def is_sep_def)
  with getCurrentStack_maximal_run [of 5 "''x ami''"] show ?thesis by blast
qed

end
