(* ===== verification/State.thy ===== *)
theory State
  imports Stack
begin

text \<open>
  The component state of \<open>AvroInput\<close> (\<open>interface AvroInputState\<close>, lines 17--24 of
  \<open>src/src/avro/AvroInput.tsx\<close>), the state the constructor builds (lines 31--40), and
  the well-formedness invariant of the suggestion list. The field \<open>value\<close> is
  \<open>value'\<close> here, since \<open>value\<close> is an Isabelle keyword.
  A JavaScript \<open>number\<close> used as an index is a \<open>nat\<close> (it is never negative:
  the only decrement is guarded by \<open>selectedIndex === 0\<close>); the pixel offsets are
  \<open>int\<close>.
\<close>

record avro_state =
  value' :: jstr
  stack :: jstr
  suggestionList :: "jstr list"
  selectedIndex :: nat
  suggestionLeft :: int
  suggestionTop :: int

definition init_state :: avro_state where
  "init_state =
     \<lparr>value' = [], stack = [], suggestionList = [[]], selectedIndex = 0,
      suggestionLeft = 0, suggestionTop = 0\<rparr>"

text \<open>
  The invariant of the suggestion list (the spec's data model): at least one slot,
  and the selected index inside the list.
\<close>

definition wf_state :: "avro_state \<Rightarrow> bool" where
  "wf_state s \<longleftrightarrow> 0 < length (suggestionList s) \<and> selectedIndex s < length (suggestionList s)"

text \<open>
  The stronger invariant the code actually keeps: exactly one slot, index 0.
\<close>

definition single_slot :: "avro_state \<Rightarrow> bool" where
  "single_slot s \<longleftrightarrow> length (suggestionList s) = 1 \<and> selectedIndex s = 0"

text \<open>
  Slot 0 of the list is written in place by three handlers
  (\<open>tempSuggestions[0] = \<dots>\<close>); the model replaces the list by its update.
\<close>

definition set_slot0 :: "jstr \<Rightarrow> avro_state \<Rightarrow> avro_state" where
  "set_slot0 x s = s\<lparr>suggestionList := js_set0 (suggestionList s) x\<rparr>"

lemma init_state_wf: "wf_state init_state"
  by (simp add: wf_state_def init_state_def)

lemma set_slot0_length [simp]:
  "length (suggestionList (set_slot0 x s)) = max 1 (length (suggestionList s))"
  by (simp add: set_slot0_def)

lemma set_slot0_fields [simp]:
  "value' (set_slot0 x s) = value' s" "stack (set_slot0 x s) = stack s"
  "selectedIndex (set_slot0 x s) = selectedIndex s"
  "suggestionLeft (set_slot0 x s) = suggestionLeft s"
  "suggestionTop (set_slot0 x s) = suggestionTop s"
  by (simp_all add: set_slot0_def)

lemma set_slot0_nonempty [simp]: "suggestionList (set_slot0 x s) \<noteq> []"
  by (simp add: set_slot0_def)

lemma set_slot0_hd [simp]: "suggestionList (set_slot0 x s) ! 0 = x"
  by (simp add: set_slot0_def)

lemma set_slot0_wf: "selectedIndex s < max 1 (length (suggestionList s)) \<Longrightarrow> wf_state (set_slot0 x s)"
  by (simp add: wf_state_def)

end
