(* ===== verification/Suggestions.thy ===== *)
theory Suggestions
  imports State
begin

text \<open>
  The suggestion list manager: the circular moves of \<open>selectedIndex\<close> that
  \<open>handleKeyPress\<close> makes on Up and Down (lines 121--134 of
  \<open>src/src/avro/AvroInput.tsx\<close>), and the overlay that \<open>renderAvroSuggestion\<close>
  (lines 185--213) derives from the state: hidden unless slot 0 is non-empty, one
  item per slot, the selected one marked. The reference for the moves is
  arithmetic modulo the list length.
\<close>

text \<open>Up (key code 38): from 0 to the last slot, otherwise one back.\<close>

definition cycle_up :: "nat \<Rightarrow> nat \<Rightarrow> nat" where
  "cycle_up len idx = (if idx = 0 then len - 1 else idx - 1)"

text \<open>Down (key code 40): from the last slot to 0, otherwise one on.\<close>

definition cycle_down :: "nat \<Rightarrow> nat \<Rightarrow> nat" where
  "cycle_down len idx = (if idx = len - 1 then 0 else idx + 1)"

text \<open>
  The rendered overlay: its position and, for each slot, the item text and whether
  it is drawn with \<open>suggestionActiveStyle\<close>.
\<close>

record overlay =
  ov_left :: int
  ov_top :: int
  ov_items :: "(jstr \<times> bool) list"

text \<open>
  \<open>suggestionList[0].length > 0\<close> reads a property of \<open>undefined\<close> when the list
  is empty: a \<open>TypeError\<close>. Otherwise the overlay is shown exactly when slot 0 is
  non-empty; \<open>None\<close> is React's \<open>undefined\<close> child (nothing rendered).
\<close>

definition renderAvroSuggestion :: "avro_state \<Rightarrow> js_error + overlay option" where
  "renderAvroSuggestion s =
     (case js_index (suggestionList s) 0 of
        None \<Rightarrow> Inl TypeError
      | Some first \<Rightarrow>
          Inr (if 0 < length first then
                 Some \<lparr>ov_left = suggestionLeft s, ov_top = suggestionTop s,
                       ov_items = map (\<lambda>(item, idx). (item, idx = selectedIndex s))
                                   (zip (suggestionList s) [0..<length (suggestionList s)])\<rparr>
               else None))"

subsection \<open>Cycling\<close>

lemma cycle_up_mod:
  "idx < len \<Longrightarrow> cycle_up len idx = (idx + len - 1) mod len"
proof (cases "idx = 0")
  case True
  assume "idx < len"
  with True show ?thesis by (simp add: cycle_up_def)
next
  case False
  assume "idx < len"
  from False have eq: "idx + len - 1 = (idx - 1) + len" by simp
  have "(idx + len - 1) mod len = idx - 1"
    unfolding eq using \<open>idx < len\<close> by simp
  with False show ?thesis by (simp add: cycle_up_def)
qed

lemma cycle_down_mod:
  "idx < len \<Longrightarrow> cycle_down len idx = (idx + 1) mod len"
  by (auto simp: cycle_down_def)

lemma cycle_up_bound: "idx < len \<Longrightarrow> cycle_up len idx < len"
  by (auto simp: cycle_up_def)

lemma cycle_down_bound: "idx < len \<Longrightarrow> cycle_down len idx < len"
  by (auto simp: cycle_down_def)

lemma cycle_up_down: "idx < len \<Longrightarrow> cycle_up len (cycle_down len idx) = idx"
  by (simp add: cycle_up_def cycle_down_def)

lemma cycle_down_up: "idx < len \<Longrightarrow> cycle_down len (cycle_up len idx) = idx"
  by (auto simp: cycle_up_def cycle_down_def)

subsection \<open>The overlay\<close>

lemma renderAvroSuggestion_visible:
  "suggestionList s \<noteq> [] \<Longrightarrow>
   (\<exists>ov. renderAvroSuggestion s = Inr (Some ov)) \<longleftrightarrow> suggestionList s ! 0 \<noteq> []"
  by (simp add: renderAvroSuggestion_def js_index_def)

lemma renderAvroSuggestion_items:
  assumes "renderAvroSuggestion s = Inr (Some ov)"
  shows "map fst (ov_items ov) = suggestionList s"
  using assms by (auto simp del: map_map simp: renderAvroSuggestion_def js_index_def split: if_splits)

lemma renderAvroSuggestion_active:
  assumes "renderAvroSuggestion s = Inr (Some ov)" and "i < length (suggestionList s)"
  shows "snd (ov_items ov ! i) = (i = selectedIndex s)"
proof -
  from assms(1) have "ov_items ov = map (\<lambda>(item, idx). (item, idx = selectedIndex s))
      (zip (suggestionList s) [0..<length (suggestionList s)])"
    by (auto simp: renderAvroSuggestion_def js_index_def split: if_splits)
  with assms(2) show ?thesis by simp
qed

lemma length_filter_mark:
  assumes k: "k < length xs"
  shows "length (filter snd (map (\<lambda>(x, i). (x, i = k)) (zip xs [0..<length xs]))) = 1"
proof -
  have "{i. i < length xs \<and> snd (map (\<lambda>(x, i). (x, i = k)) (zip xs [0..<length xs]) ! i)} = {k}"
    using k by auto
  then show ?thesis by (simp add: length_filter_conv_card)
qed

subsection \<open>Properties of the overlay\<close>

text \<open>
  C16. In a well-formed state the overlay renders without error; it is hidden exactly
  when slot 0 is empty, and when shown it lists every suggestion in order at the
  stored anchor with exactly one item, the selected one, highlighted.
\<close>

theorem overlay_visible_iff_slot0:
  assumes "wf_state s"
  shows "\<exists>r. renderAvroSuggestion s = Inr r \<and> (r = None \<longleftrightarrow> suggestionList s ! 0 = [])
          \<and> (\<forall>ov. r = Some ov \<longrightarrow> map fst (ov_items ov) = suggestionList s
                 \<and> (ov_left ov, ov_top ov) = (suggestionLeft s, suggestionTop s)
                 \<and> length (filter snd (ov_items ov)) = 1
                 \<and> snd (ov_items ov ! selectedIndex s))"
proof -
  define items where "items = map (\<lambda>(item, idx). (item, idx = selectedIndex s))
                         (zip (suggestionList s) [0..<length (suggestionList s)])"
  have r: "renderAvroSuggestion s =
             Inr (if 0 < length (suggestionList s ! 0)
                  then Some \<lparr>ov_left = suggestionLeft s, ov_top = suggestionTop s, ov_items = items\<rparr>
                  else None)"
    using assms by (simp add: renderAvroSuggestion_def js_index_def wf_state_def items_def)
  have "map fst items = suggestionList s"
    by (simp only: items_def map_fst_mark)
  moreover have "length (filter snd items) = 1"
    unfolding items_def using assms by (intro length_filter_mark) (simp add: wf_state_def)
  moreover have "snd (items ! selectedIndex s)"
    using assms by (simp add: items_def wf_state_def)
  ultimately show ?thesis using r by auto
qed

theorem overlay_visible_iff_slot0_witness:
  "renderAvroSuggestion \<lparr>value' = ''ami'', stack = ''ami'', suggestionList = [''AMI''], selectedIndex = 0,
        suggestionLeft = 3, suggestionTop = 4\<rparr>
   = Inr (Some \<lparr>ov_left = 3, ov_top = 4, ov_items = [(''AMI'', True)]\<rparr>)"
proof -
  let ?s = "\<lparr>value' = ''ami'', stack = ''ami'', suggestionList = [''AMI''], selectedIndex = 0,
        suggestionLeft = 3, suggestionTop = 4\<rparr>"
  from overlay_visible_iff_slot0 [of ?s] have "\<exists>r. renderAvroSuggestion ?s = Inr r \<and> r \<noteq> None"
    by (auto simp: wf_state_def)
  then show ?thesis by (auto simp: renderAvroSuggestion_def js_index_def)
qed

end
