(* ===== verification/Resolver.thy ===== *)
theory Resolver
  imports State
begin

text \<open>
  The caret coordinate resolver: \<open>getCursorXY\<close> (lines 315--353 of
  \<open>src/src/avro/AvroInput.tsx\<close>) builds a hidden \<open>div\<close> that copies the computed
  style of the text control, fills it with the text up to the caret (spaces replaced
  by \<open>'.'\<close> for a single-line \<open>INPUT\<close>), appends a marker \<open>span\<close> holding the
  rest of the text (or \<open>'.'\<close> when there is none) and reads the marker's offset;
  \<open>updateSuggestionPos\<close> (lines 172--183) caps the result by the control's size and
  stores it, shifted down by the control's top and a gap of 10, as the overlay anchor.

  The DOM element is the record \<open>surface\<close>: its tag, its current text and caret,
  its offsets and size, and \<open>mirror_layout\<close>, the browser's layout of a \<open>div\<close>
  carrying that element's computed style (text before the marker, marker text) to the
  marker's \<open>(offsetLeft, offsetTop)\<close>. The layout engine is not code of the
  repository and stays a parameter.
\<close>

datatype tag = INPUT | TEXTAREA

record surface =
  tagName :: tag
  dom_value :: jstr
  selectionStart :: nat
  offsetLeft :: int
  offsetTop :: int
  offsetWidth :: int
  offsetHeight :: int
  mirror_layout :: "jstr \<Rightarrow> jstr \<Rightarrow> int \<times> int"

text \<open>\<open>const swap = '.'\<close> and the replacement \<open>input.value.replace(/ /g, swap)\<close>.\<close>

definition swap_char :: char where
  "swap_char = CHR ''.''"

definition mirror_value :: "tag \<Rightarrow> jstr \<Rightarrow> jstr" where
  "mirror_value t v =
     (if t = INPUT then map (\<lambda>c. if c = CHR '' '' then swap_char else c) v else v)"

text \<open>\<open>inputValue.substr(selectionPoint) || '.'\<close>: the empty string is falsy.\<close>

definition marker_text :: "jstr \<Rightarrow> nat \<Rightarrow> jstr" where
  "marker_text inputValue selectionPoint =
     (let rest = js_substr_from inputValue selectionPoint
      in if rest = [] then [swap_char] else rest)"

definition getCursorXY :: "surface \<Rightarrow> nat \<Rightarrow> int \<times> int" where
  "getCursorXY input selectionPoint =
     (let inputValue = mirror_value (tagName input) (dom_value input);
          textContent = js_substr inputValue 0 selectionPoint;
          (spanX, spanY) = mirror_layout input textContent (marker_text inputValue selectionPoint)
      in (offsetLeft input + spanX, offsetTop input + spanY))"

text \<open>
  The anchor \<open>updateSuggestionPos\<close> computes from the element (lines 173--181): the
  caret position capped by the element's width and height, and moved down by the
  element's \<open>offsetTop\<close> and the gap \<open>offsetY = 10\<close>.
\<close>

definition caret_anchor :: "surface \<Rightarrow> int \<times> int" where
  "caret_anchor input =
     (let (x, y) = getCursorXY input (selectionStart input);
          offsetY = 10;
          x = (if x > offsetWidth input then offsetWidth input else x);
          y = (if y > offsetHeight input then offsetHeight input else y)
      in (x, y + offsetTop input + offsetY))"

text \<open>
  \<open>this.textInput!\<close> is \<open>null\<close> before the element is attached: reading
  \<open>selectionStart\<close> of it throws.
\<close>

definition updateSuggestionPos :: "surface option \<Rightarrow> avro_state \<Rightarrow> js_error + avro_state" where
  "updateSuggestionPos textInput s =
     (case textInput of
        None \<Rightarrow> Inl TypeError
      | Some input \<Rightarrow>
          (let (left, top) = caret_anchor input
           in Inr (s\<lparr>suggestionLeft := left, suggestionTop := top\<rparr>)))"

subsection \<open>The hidden mirror\<close>

lemma mirror_value_length [simp]: "length (mirror_value t v) = length v"
  by (simp add: mirror_value_def)

lemma marker_text_nonempty [simp]: "marker_text v p \<noteq> []"
  by (simp add: marker_text_def Let_def)

subsection \<open>The anchor\<close>

lemma caret_anchor_eq:
  "caret_anchor input =
     (min (fst (getCursorXY input (selectionStart input))) (offsetWidth input),
      min (snd (getCursorXY input (selectionStart input))) (offsetHeight input) + offsetTop input + 10)"
  by (simp add: caret_anchor_def case_prod_beta min_def)

lemma updateSuggestionPos_Some:
  "updateSuggestionPos (Some input) s =
     Inr (s\<lparr>suggestionLeft := fst (caret_anchor input), suggestionTop := snd (caret_anchor input)\<rparr>)"
  by (simp add: updateSuggestionPos_def case_prod_beta)

lemma updateSuggestionPos_fields:
  assumes "updateSuggestionPos ti s = Inr s'"
  shows "value' s' = value' s \<and> stack s' = stack s \<and> suggestionList s' = suggestionList s
         \<and> selectedIndex s' = selectedIndex s"
  using assms by (auto simp: updateSuggestionPos_def case_prod_beta split: option.splits)

lemma updateSuggestionPos_None: "updateSuggestionPos None s = Inl TypeError"
  by (simp add: updateSuggestionPos_def)

subsection \<open>Properties of the resolver\<close>

text \<open>
  C12. The anchor never lies right of the element's width, nor lower than its height
  plus its top offset and the gap; with non-negative geometry and a non-negative
  marker offset from the layout, it is not left of 0 and not above the element's top
  plus the gap.
\<close>

theorem anchor_bounds:
  assumes "0 \<le> offsetLeft input" and "0 \<le> offsetTop input"
    and "0 \<le> offsetWidth input" and "0 \<le> offsetHeight input"
    and "\<And>a b. 0 \<le> fst (mirror_layout input a b) \<and> 0 \<le> snd (mirror_layout input a b)"
  shows "0 \<le> fst (caret_anchor input) \<and> fst (caret_anchor input) \<le> offsetWidth input
       \<and> offsetTop input + 10 \<le> snd (caret_anchor input)
       \<and> snd (caret_anchor input) \<le> offsetHeight input + offsetTop input + 10"
  using assms by (simp add: caret_anchor_eq getCursorXY_def case_prod_beta Let_def)

theorem anchor_bounds_witness:
  "0 \<le> fst (caret_anchor \<lparr>tagName = INPUT, dom_value = ''ami'', selectionStart = 3, offsetLeft = 4,
            offsetTop = 2, offsetWidth = 100, offsetHeight = 20, mirror_layout = (\<lambda>a b. (int (8 * length a), 0))\<rparr>)
   \<and> fst (caret_anchor \<lparr>tagName = INPUT, dom_value = ''ami'', selectionStart = 3, offsetLeft = 4,
            offsetTop = 2, offsetWidth = 100, offsetHeight = 20, mirror_layout = (\<lambda>a b. (int (8 * length a), 0))\<rparr>) \<le> 100"
  using anchor_bounds [of "\<lparr>tagName = INPUT, dom_value = ''ami'', selectionStart = 3, offsetLeft = 4,
            offsetTop = 2, offsetWidth = 100, offsetHeight = 20, mirror_layout = (\<lambda>a b. (int (8 * length a), 0))\<rparr>"]
  by simp

text \<open>
  C13. Moving the element moves the anchor with it, but not as the spec says: shifted
  right by \<open>dx\<close> and down by \<open>dy\<close> (while the caps are not reached), the
  anchor moves right by \<open>dx\<close> and down by \<open>2 * dy\<close>, since \<open>offsetTop\<close> is
  added once in \<open>getCursorXY\<close> and again in \<open>updateSuggestionPos\<close>. The spec
  adds the surface's offset once, which would move the overlay by \<open>dy\<close>.
\<close>

theorem anchor_translation:
  assumes "0 \<le> dx" and "0 \<le> dy"
    and "fst (getCursorXY input (selectionStart input)) + dx \<le> offsetWidth input"
    and "snd (getCursorXY input (selectionStart input)) + dy \<le> offsetHeight input"
  shows "caret_anchor (input\<lparr>offsetLeft := offsetLeft input + dx, offsetTop := offsetTop input + dy\<rparr>)
         = (fst (caret_anchor input) + dx, snd (caret_anchor input) + 2 * dy)"
  using assms by (simp add: caret_anchor_eq getCursorXY_def Let_def case_prod_beta)

theorem anchor_translation_witness:
  "caret_anchor \<lparr>tagName = INPUT, dom_value = ''ami'', selectionStart = 3, offsetLeft = 9,
            offsetTop = 7, offsetWidth = 100, offsetHeight = 20, mirror_layout = (\<lambda>a b. (int (8 * length a), 0))\<rparr>
   = (fst (caret_anchor \<lparr>tagName = INPUT, dom_value = ''ami'', selectionStart = 3, offsetLeft = 4,
            offsetTop = 2, offsetWidth = 100, offsetHeight = 20, mirror_layout = (\<lambda>a b. (int (8 * length a), 0))\<rparr>) + 5,
      snd (caret_anchor \<lparr>tagName = INPUT, dom_value = ''ami'', selectionStart = 3, offsetLeft = 4,
            offsetTop = 2, offsetWidth = 100, offsetHeight = 20, mirror_layout = (\<lambda>a b. (int (8 * length a), 0))\<rparr>) + 2 * 5)"
  using anchor_translation [where dx = 5 and dy = 5 and input = "\<lparr>tagName = INPUT, dom_value = ''ami'', selectionStart = 3, offsetLeft = 4,
            offsetTop = 2, offsetWidth = 100, offsetHeight = 20, mirror_layout = (\<lambda>a b. (int (8 * length a), 0))\<rparr>"]
  by (simp add: getCursorXY_def mirror_value_def js_substr_def marker_text_def Let_def)

end
