(* ===== verification/Controller.thy ===== *)
theory Controller
  imports Suggestions Resolver
begin

text \<open>
  The composition stack controller: the event handlers of \<open>class AvroInput\<close>
  (\<open>src/src/avro/AvroInput.tsx\<close>): \<open>componentDidMount\<close> (49--55),
  \<open>handleChange\<close> (57--70), \<open>handleKeyPress\<close> (72--142) and
  \<open>handleBlurChange\<close> (144--153), and which handlers \<open>render\<close> attaches
  (215--257).

  A handler maps the state before the event to the state after it. React batches the
  \<open>setState\<close> calls of one handler: every read of \<open>this.state\<close> in a handler
  sees the state before the event, and the DOM element (\<open>this.textInput\<close>, a
  \<open>surface option\<close>) is the one before React re-renders. A handler that throws is
  \<open>Inl TypeError\<close>. The callbacks a handler makes to the embedding application
  (\<open>props.onChange\<close>, \<open>event.preventDefault\<close>, \<open>props.onKeyDown\<close>) are a
  list in the order they are made, and the caret it restores in the \<open>setState\<close>
  callback is \<open>caret_set\<close>.
\<close>

datatype input_type = Text | Textarea

record props =
  p_type :: input_type
  p_value :: jstr
  has_onChange :: bool
  has_onKeyDown :: bool

record key_event =
  keyCode :: nat
  key :: jstr

datatype callback = OnChange jstr | PreventDefault | OnKeyDown key_event

record effects =
  caret_set :: "nat option"
  calls :: "callback list"

definition no_effects :: effects where
  "no_effects = \<lparr>caret_set = None, calls = []\<rparr>"

subsection \<open>Key classification\<close>

text \<open>The guards of the \<open>if\<close> chain of \<open>handleKeyPress\<close>, in its order.\<close>

definition is_word_key :: "nat \<Rightarrow> bool" where
  "is_word_key k \<longleftrightarrow> (48 \<le> k \<and> k \<le> 90) \<or> (186 \<le> k \<and> k \<le> 222)"

definition is_commit_key :: "nat \<Rightarrow> bool" where
  "is_commit_key k \<longleftrightarrow> k = 13 \<or> k = 32"

subsection \<open>The handlers\<close>

text \<open>
  Value change: slot 0 becomes the transliteration of the stack as it is, the value
  becomes the surface's text, and the anchor is recomputed when the value \<^emph>\<open>before\<close>
  the change was empty (\<open>this.state.value\<close> is read after a batched \<open>setState\<close>).
\<close>

definition handleChange ::
  "translit \<Rightarrow> surface option \<Rightarrow> jstr \<Rightarrow> avro_state \<Rightarrow> js_error + avro_state" where
  "handleChange parse textInput currentVal s =
     (let s1 = (set_slot0 (parse (stack s)) s)\<lparr>value' := currentVal\<rparr>
      in if value' s = [] then updateSuggestionPos textInput s1 else Inr s1)"

text \<open>
  The text a commit produces and the caret offset after it (lines 83--96): splice the
  selected suggestion over the stack that ends at the caret, or, with no stack (or a
  stack of one space), transliterate the whole value. An index outside the list reads
  \<open>undefined\<close>, and its \<open>.length\<close> throws.
\<close>

definition commit_text ::
  "translit \<Rightarrow> nat \<Rightarrow> avro_state \<Rightarrow> js_error + (jstr \<times> nat)" where
  "commit_text parse tempSelection s =
     (let end0 = getStackRange parse (stack s) (value' s) tempSelection
      in if 0 < length (stack s) \<and> stack s \<noteq> '' ''
         then (case js_index (suggestionList s) (selectedIndex s) of
                 None \<Rightarrow> Inl TypeError
               | Some sel \<Rightarrow>
                   (let firstSection = js_substring0 (value' s) tempSelection;
                        valWithoutStack = js_slice_neg firstSection (length (stack s));
                        lastSection = js_substr (value' s) tempSelection (length (value' s))
                    in Inr (valWithoutStack @ sel @ lastSection, length valWithoutStack + length sel)))
         else Inr (parse (value' s), end0))"

text \<open>
  Enter or Space (lines 82--119): reset the composition, recompute the anchor on the
  element as it is, call \<open>onChange\<close>, and for Enter suppress the default and forward
  the event. The calls to the embedding application, in order (lines 115--119):
\<close>

definition commit_calls :: "props \<Rightarrow> key_event \<Rightarrow> jstr \<Rightarrow> callback list" where
  "commit_calls p ev finalVal =
     (if has_onChange p then [OnChange finalVal] else [])
     @ (if keyCode ev = 13
        then PreventDefault # (if has_onKeyDown p then [OnKeyDown ev] else [])
        else [])"

definition commit_key ::
  "translit \<Rightarrow> props \<Rightarrow> surface option \<Rightarrow> key_event \<Rightarrow> avro_state
   \<Rightarrow> js_error + avro_state \<times> effects" where
  "commit_key parse p textInput ev s =
     (case textInput of
        None \<Rightarrow> Inl TypeError
      | Some input \<Rightarrow>
          (case commit_text parse (selectionStart input) s of
             Inl e \<Rightarrow> Inl e
           | Inr (finalVal, end) \<Rightarrow>
               (let s1 = (set_slot0 [] s)\<lparr>value' := finalVal, stack := [], selectedIndex := 0\<rparr>
                in case updateSuggestionPos textInput s1 of
                     Inl e \<Rightarrow> Inl e
                   | Inr s2 \<Rightarrow>
                       Inr (s2, \<lparr>caret_set = Some end, calls = commit_calls p ev finalVal\<rparr>))))"

definition handleKeyPress ::
  "translit \<Rightarrow> props \<Rightarrow> surface option \<Rightarrow> key_event \<Rightarrow> avro_state
   \<Rightarrow> js_error + avro_state \<times> effects" where
  "handleKeyPress parse p textInput ev s =
     (if is_word_key (keyCode ev) then
        (case textInput of
           None \<Rightarrow> Inl TypeError
         | Some input \<Rightarrow>
             Inr (s\<lparr>stack := getCurrentStack (value' s) (selectionStart input) @ key ev\<rparr>, no_effects))
      else if is_commit_key (keyCode ev) then commit_key parse p textInput ev s
      else if 1 < length (suggestionList s) \<and> (keyCode ev = 38 \<or> keyCode ev = 40) then
        (if keyCode ev = 38
         then Inr (s\<lparr>selectedIndex := cycle_up (length (suggestionList s)) (selectedIndex s)\<rparr>, no_effects)
         else Inr (s\<lparr>selectedIndex := cycle_down (length (suggestionList s)) (selectedIndex s)\<rparr>, no_effects))
      else if keyCode ev = 8 then
        (let s1 = s\<lparr>stack := js_slice_neg (stack s) 1\<rparr>
         in if stack s = [] then
              (case updateSuggestionPos textInput s1 of Inl e \<Rightarrow> Inl e | Inr s2 \<Rightarrow> Inr (s2, no_effects))
            else Inr (s1, no_effects))
      else Inr (s, no_effects))"

definition handleBlurChange :: "avro_state \<Rightarrow> avro_state" where
  "handleBlurChange s = (set_slot0 [] s)\<lparr>stack := [], selectedIndex := 0\<rparr>"

text \<open>\<open>this.props.value || ''\<close>: the default of the prop is \<open>''\<close>.\<close>

definition componentDidMount :: "props \<Rightarrow> surface option \<Rightarrow> avro_state \<Rightarrow> js_error + avro_state" where
  "componentDidMount p textInput s =
     updateSuggestionPos textInput (s\<lparr>value' := (if p_value p = [] then [] else p_value p)\<rparr>)"

subsection \<open>Rendering glue\<close>

text \<open>
  \<open>render\<close> draws a \<open><textarea>\<close> when \<open>props.type\<close> is \<open>'textarea'\<close> and an
  \<open><input type="text">\<close> otherwise; only the \<open><input>\<close> gets \<open>onBlur\<close>.
\<close>

definition surface_tag :: "props \<Rightarrow> tag" where
  "surface_tag p = (if p_type p = Textarea then TEXTAREA else INPUT)"

definition blur_attached :: "props \<Rightarrow> bool" where
  "blur_attached p \<longleftrightarrow> p_type p \<noteq> Textarea"

text \<open>
  \<open>AvroInput.defaultProps\<close> (lines 270--276): a text field with an empty initial
  value and no callbacks (placeholder and styles are not behaviour).
\<close>

definition default_props :: props where
  "default_props = \<lparr>p_type = Text, p_value = [], has_onChange = False, has_onKeyDown = False\<rparr>"

subsection \<open>The suggestion-list invariant\<close>

lemma updateSuggestionPos_wf:
  "updateSuggestionPos ti s = Inr s' \<Longrightarrow> wf_state s' = wf_state s"
  by (drule updateSuggestionPos_fields) (simp add: wf_state_def)

lemma reset_wf [simp]:
  "wf_state ((set_slot0 x s)\<lparr>value' := v, stack := st, selectedIndex := 0\<rparr>)"
  "wf_state ((set_slot0 x s)\<lparr>stack := st, selectedIndex := 0\<rparr>)"
  by (simp_all add: wf_state_def)

lemma handleChange_wf:
  "wf_state s \<Longrightarrow> handleChange parse ti v s = Inr s' \<Longrightarrow> wf_state s'"
  unfolding handleChange_def Let_def
  by (auto simp: wf_state_def dest!: updateSuggestionPos_wf split: if_splits)

lemma commit_key_wf:
  "commit_key parse p ti ev s = Inr (s', eff) \<Longrightarrow> wf_state s'"
  unfolding commit_key_def Let_def
  by (auto dest!: updateSuggestionPos_wf split: option.splits sum.splits prod.splits)

subsection \<open>Commit\<close>

lemma commit_key_calls:
  "commit_key parse p ti ev s = Inr (s', eff) \<Longrightarrow> calls eff = commit_calls p ev (value' s')"
  by (auto simp: commit_key_def updateSuggestionPos_Some split: option.splits sum.splits prod.splits)

lemma commit_text_splice:
  assumes "wf_state s" and "stack s \<noteq> []" and "stack s \<noteq> '' ''"
    and "take sel (value' s) = u @ stack s"
  shows "commit_text parse sel s =
           Inr (u @ suggestionList s ! selectedIndex s @ drop sel (value' s),
                length u + length (suggestionList s ! selectedIndex s))"
  using assms
  by (simp add: commit_text_def wf_state_def js_index_def js_substring0_def
                js_slice_neg_suffix js_substr_all)

lemma commit_text_fallback:
  "stack s = [] \<Longrightarrow> commit_text parse sel s = Inr (parse (value' s), sel)"
  by (simp add: commit_text_def getStackRange_def)

lemma commit_key_result:
  assumes "commit_text parse (selectionStart input) s = Inr (fv, e)"
  shows "\<exists>s'. commit_key parse p (Some input) ev s = Inr (s', \<lparr>caret_set = Some e, calls = commit_calls p ev fv\<rparr>)
      \<and> value' s' = fv \<and> stack s' = [] \<and> selectedIndex s' = 0
      \<and> suggestionList s' = js_set0 (suggestionList s) []"
  using assms by (simp add: commit_key_def updateSuggestionPos_Some set_slot0_def)

lemma commit_key_no_surface: "commit_key parse p None ev s = Inl TypeError"
  by (simp add: commit_key_def)

subsection \<open>The branches of handleKeyPress\<close>

text \<open>One equation per branch of the \<open>if\<close> chain, with the guards of the earlier branches.\<close>

lemma handleKeyPress_word:
  "is_word_key (keyCode ev) \<Longrightarrow> handleKeyPress parse p ti ev s =
     (case ti of None \<Rightarrow> Inl TypeError
      | Some input \<Rightarrow> Inr (s\<lparr>stack := getCurrentStack (value' s) (selectionStart input) @ key ev\<rparr>, no_effects))"
  by (simp add: handleKeyPress_def)

lemma handleKeyPress_commit:
  "is_commit_key (keyCode ev) \<Longrightarrow> handleKeyPress parse p ti ev s = commit_key parse p ti ev s"
  by (auto simp: handleKeyPress_def is_word_key_def is_commit_key_def)

lemma handleKeyPress_cycle:
  "keyCode ev = 38 \<or> keyCode ev = 40 \<Longrightarrow> 1 < length (suggestionList s) \<Longrightarrow>
   handleKeyPress parse p ti ev s =
     Inr (s\<lparr>selectedIndex := (if keyCode ev = 38 then cycle_up else cycle_down)
                                (length (suggestionList s)) (selectedIndex s)\<rparr>, no_effects)"
  by (auto simp: handleKeyPress_def is_word_key_def is_commit_key_def)

lemma handleKeyPress_erase:
  "keyCode ev = 8 \<Longrightarrow> handleKeyPress parse p ti ev s =
     (if stack s = []
      then (case updateSuggestionPos ti (s\<lparr>stack := js_slice_neg (stack s) 1\<rparr>) of
              Inl e \<Rightarrow> Inl e | Inr s2 \<Rightarrow> Inr (s2, no_effects))
      else Inr (s\<lparr>stack := js_slice_neg (stack s) 1\<rparr>, no_effects))"
  by (auto simp: handleKeyPress_def is_word_key_def is_commit_key_def Let_def)

lemma handleKeyPress_other:
  "\<not> is_word_key (keyCode ev) \<Longrightarrow> \<not> is_commit_key (keyCode ev) \<Longrightarrow> keyCode ev \<noteq> 8 \<Longrightarrow>
   \<not> (1 < length (suggestionList s) \<and> (keyCode ev = 38 \<or> keyCode ev = 40)) \<Longrightarrow>
   handleKeyPress parse p ti ev s = Inr (s, no_effects)"
  by (auto simp: handleKeyPress_def)

lemma word_key_stack:
  "is_word_key k \<Longrightarrow>
   handleKeyPress parse p (Some input) \<lparr>keyCode = k, key = t\<rparr> s =
     Inr (s\<lparr>stack := trailing_run (take (selectionStart input) (value' s)) @ t\<rparr>, no_effects)"
  by (simp add: handleKeyPress_word getCurrentStack_trailing_run)

lemma erase_stack:
  "stack s \<noteq> [] \<Longrightarrow>
   handleKeyPress parse p ti \<lparr>keyCode = 8, key = t\<rparr> s =
     Inr (s\<lparr>stack := butlast (stack s)\<rparr>, no_effects)"
  by (simp add: handleKeyPress_erase js_slice_neg_def butlast_conv_take)

lemma handleChange_attached:
  "\<exists>s'. handleChange parse (Some input) v s = Inr s' \<and> value' s' = v \<and> stack s' = stack s"
  by (simp add: handleChange_def updateSuggestionPos_Some Let_def)

lemma handleKeyPress_cases [case_names word commit cycle erase other]:
  assumes "is_word_key (keyCode ev) \<Longrightarrow> P"
    and "is_commit_key (keyCode ev) \<Longrightarrow> P"
    and "keyCode ev = 38 \<or> keyCode ev = 40 \<Longrightarrow> 1 < length (suggestionList s) \<Longrightarrow> P"
    and "keyCode ev = 8 \<Longrightarrow> P"
    and "\<not> is_word_key (keyCode ev) \<Longrightarrow> \<not> is_commit_key (keyCode ev) \<Longrightarrow> keyCode ev \<noteq> 8 \<Longrightarrow>
         \<not> (1 < length (suggestionList s) \<and> (keyCode ev = 38 \<or> keyCode ev = 40)) \<Longrightarrow> P"
  shows P
  using assms by blast

lemma handleKeyPress_wf:
  assumes wf: "wf_state s" and ok: "handleKeyPress parse p ti ev s = Inr (s', eff)"
  shows "wf_state s'"
proof (cases rule: handleKeyPress_cases [where ev = ev and s = s])
  case word
  with wf ok show ?thesis
    by (auto simp: handleKeyPress_word wf_state_def split: option.splits)
next
  case commit
  with ok show ?thesis by (simp add: handleKeyPress_commit commit_key_wf)
next
  case cycle
  with wf ok show ?thesis
    by (auto simp: handleKeyPress_cycle wf_state_def cycle_up_bound cycle_down_bound)
next
  case erase
  with wf ok show ?thesis
    by (auto simp: handleKeyPress_erase wf_state_def dest!: updateSuggestionPos_wf
             split: if_splits sum.splits)
next
  case other
  with wf ok show ?thesis by (simp add: handleKeyPress_other)
qed

lemma handleKeyPress_attached_returns:
  assumes "wf_state s"
  shows "\<exists>r. handleKeyPress parse p (Some input) ev s = Inr r"
proof (cases rule: handleKeyPress_cases [where ev = ev and s = s])
  case word
  then show ?thesis by (simp add: handleKeyPress_word)
next
  case commit
  have "\<exists>fv e. commit_text parse (selectionStart input) s = Inr (fv, e)"
    using assms by (simp add: commit_text_def js_index_def wf_state_def Let_def)
  with commit show ?thesis
    by (auto simp: handleKeyPress_commit commit_key_def updateSuggestionPos_Some)
next
  case cycle
  then show ?thesis by (simp add: handleKeyPress_cycle)
next
  case erase
  then show ?thesis by (simp add: handleKeyPress_erase updateSuggestionPos_Some)
next
  case other
  then show ?thesis by (simp add: handleKeyPress_other)
qed

lemma handleBlurChange_wf: "wf_state (handleBlurChange s)"
  by (simp add: handleBlurChange_def)

lemma handleBlurChange_value [simp]: "value' (handleBlurChange s) = value' s"
  by (simp add: handleBlurChange_def)

lemma componentDidMount_wf:
  "wf_state s \<Longrightarrow> componentDidMount p ti s = Inr s' \<Longrightarrow> wf_state s'"
  unfolding componentDidMount_def
  by (auto simp: wf_state_def dest!: updateSuggestionPos_wf)

lemma js_set0_idem [simp]: "js_set0 (js_set0 xs x) x = js_set0 xs x"
  by (simp add: js_set0_def)

subsection \<open>The single-slot invariant\<close>

text \<open>
  No handler ever adds a slot to the list: writes go to slot 0 only, so from the
  constructor's one-slot list every handler keeps \<open>single_slot\<close>.
\<close>

lemma single_slot_wf: "single_slot s \<Longrightarrow> wf_state s"
  by (simp add: single_slot_def wf_state_def)

lemma updateSuggestionPos_single_slot:
  "updateSuggestionPos ti s = Inr s' \<Longrightarrow> single_slot s' = single_slot s"
  by (drule updateSuggestionPos_fields) (simp add: single_slot_def)

lemma handleChange_single_slot:
  "single_slot s \<Longrightarrow> handleChange parse ti v s = Inr s' \<Longrightarrow> single_slot s'"
  unfolding handleChange_def Let_def
  by (auto simp: single_slot_def dest!: updateSuggestionPos_single_slot split: if_splits)

lemma commit_key_single_slot:
  "single_slot s \<Longrightarrow> commit_key parse p ti ev s = Inr (s', eff) \<Longrightarrow> single_slot s'"
  unfolding commit_key_def Let_def
  by (auto simp: single_slot_def dest!: updateSuggestionPos_single_slot
           split: option.splits sum.splits prod.splits)

lemma handleKeyPress_single_slot:
  assumes inv: "single_slot s" and ok: "handleKeyPress parse p ti ev s = Inr (s', eff)"
  shows "single_slot s'"
proof (cases rule: handleKeyPress_cases [where ev = ev and s = s])
  case word
  with inv ok show ?thesis
    by (auto simp: handleKeyPress_word single_slot_def split: option.splits)
next
  case commit
  with inv ok show ?thesis by (simp add: handleKeyPress_commit commit_key_single_slot)
next
  case cycle
  with inv show ?thesis by (simp add: single_slot_def)
next
  case erase
  with inv ok show ?thesis
    by (auto simp: handleKeyPress_erase single_slot_def dest!: updateSuggestionPos_single_slot
             split: if_splits sum.splits)
next
  case other
  with inv ok show ?thesis by (simp add: handleKeyPress_other)
qed

lemma handleKeyPress_arrow_single_slot:
  "single_slot s \<Longrightarrow> keyCode ev = 38 \<or> keyCode ev = 40 \<Longrightarrow>
   handleKeyPress parse p ti ev s = Inr (s, no_effects)"
  by (auto simp: single_slot_def handleKeyPress_other is_word_key_def is_commit_key_def)

lemma handleBlurChange_single_slot: "single_slot s \<Longrightarrow> single_slot (handleBlurChange s)"
  by (simp add: single_slot_def handleBlurChange_def set_slot0_def)

lemma componentDidMount_single_slot:
  "single_slot s \<Longrightarrow> componentDidMount p ti s = Inr s' \<Longrightarrow> single_slot s'"
  unfolding componentDidMount_def
  by (auto simp: single_slot_def dest!: updateSuggestionPos_single_slot)

lemma init_state_single_slot: "single_slot init_state"
  by (simp add: single_slot_def init_state_def)

subsection \<open>Properties of the handlers\<close>

text \<open>
  C1. Committing (Enter or Space) while composing replaces the stack, which ends at the
  caret, by the selected suggestion, keeps the text after the caret, puts the caret
  right after the inserted suggestion and resets the composition (empty stack, index 0,
  empty slot 0). The handler returns: it does not throw on an attached element.
\<close>

theorem commit_splices_selected_suggestion:
  assumes "wf_state s" and "stack s \<noteq> []" and "stack s \<noteq> '' ''"
    and "take (selectionStart input) (value' s) = u @ stack s"
    and "is_commit_key (keyCode ev)"
  shows "\<exists>s' eff. handleKeyPress parse p (Some input) ev s = Inr (s', eff)
     \<and> value' s' = u @ suggestionList s ! selectedIndex s @ drop (selectionStart input) (value' s)
     \<and> caret_set eff = Some (length u + length (suggestionList s ! selectedIndex s))
     \<and> stack s' = [] \<and> selectedIndex s' = 0 \<and> suggestionList s' ! 0 = []"
proof -
  have "commit_text parse (selectionStart input) s =
          Inr (u @ suggestionList s ! selectedIndex s @ drop (selectionStart input) (value' s),
               length u + length (suggestionList s ! selectedIndex s))"
    using assms(1-4) by (rule commit_text_splice)
  from commit_key_result [OF this, of p ev] assms(5) show ?thesis
    by (auto simp: handleKeyPress_commit)
qed

theorem commit_splices_selected_suggestion_witness:
  "\<exists>s' eff. handleKeyPress (\<lambda>x. x) \<lparr>p_type = Text, p_value = [], has_onChange = True, has_onKeyDown = False\<rparr>
       (Some \<lparr>tagName = INPUT, dom_value = ''x ami!'', selectionStart = 5, offsetLeft = 0,
              offsetTop = 0, offsetWidth = 100, offsetHeight = 20, mirror_layout = (\<lambda>a b. (0, 0))\<rparr>)
       \<lparr>keyCode = 32, key = '' ''\<rparr>
       \<lparr>value' = ''x ami!'', stack = ''ami'', suggestionList = [''AMI''], selectedIndex = 0,
        suggestionLeft = 0, suggestionTop = 0\<rparr> = Inr (s', eff)
     \<and> value' s' = ''x AMI!'' \<and> caret_set eff = Some 5 \<and> stack s' = []"
  using commit_splices_selected_suggestion
      [of "\<lparr>value' = ''x ami!'', stack = ''ami'', suggestionList = [''AMI''], selectedIndex = 0,
            suggestionLeft = 0, suggestionTop = 0\<rparr>"
          "\<lparr>tagName = INPUT, dom_value = ''x ami!'', selectionStart = 5, offsetLeft = 0,
            offsetTop = 0, offsetWidth = 100, offsetHeight = 20, mirror_layout = (\<lambda>a b. (0, 0))\<rparr>"
          "''x ''" "\<lparr>keyCode = 32, key = '' ''\<rparr>" "\<lambda>x. x"
          "\<lparr>p_type = Text, p_value = [], has_onChange = True, has_onKeyDown = False\<rparr>"]
  by (auto simp: wf_state_def is_commit_key_def)

text \<open>
  C2. Committing with no composition in progress transliterates the whole value and
  replaces it (the fallback for text that did not come through the keyboard); the
  caret is restored to where it was, and the composition is reset.
\<close>

theorem commit_without_stack_transliterates_value:
  assumes "stack s = []" and "is_commit_key (keyCode ev)"
  shows "\<exists>s' eff. handleKeyPress parse p (Some input) ev s = Inr (s', eff)
     \<and> value' s' = parse (value' s) \<and> caret_set eff = Some (selectionStart input)
     \<and> stack s' = [] \<and> selectedIndex s' = 0 \<and> suggestionList s' ! 0 = []"
proof -
  from assms(1) have "commit_text parse (selectionStart input) s = Inr (parse (value' s), selectionStart input)"
    by (rule commit_text_fallback)
  from commit_key_result [OF this, of p ev] assms(2) show ?thesis
    by (auto simp: handleKeyPress_commit)
qed

theorem commit_without_stack_transliterates_value_witness:
  "\<exists>s' eff. handleKeyPress (\<lambda>x. ''X'') \<lparr>p_type = Text, p_value = [], has_onChange = True, has_onKeyDown = False\<rparr>
       (Some \<lparr>tagName = INPUT, dom_value = ''hello world'', selectionStart = 11, offsetLeft = 0,
              offsetTop = 0, offsetWidth = 100, offsetHeight = 20, mirror_layout = (\<lambda>a b. (0, 0))\<rparr>)
       \<lparr>keyCode = 13, key = ''Enter''\<rparr>
       \<lparr>value' = ''hello world'', stack = [], suggestionList = [[]], selectedIndex = 0,
        suggestionLeft = 0, suggestionTop = 0\<rparr> = Inr (s', eff)
     \<and> value' s' = ''X'' \<and> stack s' = []"
  using commit_without_stack_transliterates_value
      [of "\<lparr>value' = ''hello world'', stack = [], suggestionList = [[]], selectedIndex = 0,
            suggestionLeft = 0, suggestionTop = 0\<rparr>"
          "\<lparr>keyCode = 13, key = ''Enter''\<rparr>" "\<lambda>x. ''X''"
          "\<lparr>p_type = Text, p_value = [], has_onChange = True, has_onKeyDown = False\<rparr>"
          "\<lparr>tagName = INPUT, dom_value = ''hello world'', selectionStart = 11, offsetLeft = 0,
            offsetTop = 0, offsetWidth = 100, offsetHeight = 20, mirror_layout = (\<lambda>a b. (0, 0))\<rparr>"]
  by (auto simp: is_commit_key_def)

text \<open>
  C4. A word-character key (key codes 48--90 and 186--222) sets the stack to the
  separator-free run that ends at the caret followed by the key's text; nothing else
  changes and no callback is made.
\<close>

theorem word_key_extends_current_run:
  assumes "is_word_key (keyCode ev)"
  shows "handleKeyPress parse p (Some input) ev s =
           Inr (s\<lparr>stack := trailing_run (take (selectionStart input) (value' s)) @ key ev\<rparr>, no_effects)"
  using assms by (simp add: handleKeyPress_word getCurrentStack_trailing_run)

theorem word_key_extends_current_run_witness:
  "handleKeyPress (\<lambda>x. x) \<lparr>p_type = Text, p_value = [], has_onChange = True, has_onKeyDown = False\<rparr>
       (Some \<lparr>tagName = INPUT, dom_value = ''x am'', selectionStart = 4, offsetLeft = 0,
              offsetTop = 0, offsetWidth = 100, offsetHeight = 20, mirror_layout = (\<lambda>a b. (0, 0))\<rparr>)
       \<lparr>keyCode = 73, key = ''i''\<rparr>
       \<lparr>value' = ''x am'', stack = ''am'', suggestionList = [''AM''], selectedIndex = 0,
        suggestionLeft = 0, suggestionTop = 0\<rparr>
   = Inr (\<lparr>value' = ''x am'', stack = ''ami'', suggestionList = [''AM''], selectedIndex = 0,
          suggestionLeft = 0, suggestionTop = 0\<rparr>, no_effects)"
  using word_key_extends_current_run
      [of "\<lparr>keyCode = 73, key = ''i''\<rparr>" "\<lambda>x. x"
          "\<lparr>p_type = Text, p_value = [], has_onChange = True, has_onKeyDown = False\<rparr>"
          "\<lparr>tagName = INPUT, dom_value = ''x am'', selectionStart = 4, offsetLeft = 0,
            offsetTop = 0, offsetWidth = 100, offsetHeight = 20, mirror_layout = (\<lambda>a b. (0, 0))\<rparr>"
          "\<lparr>value' = ''x am'', stack = ''am'', suggestionList = [''AM''], selectedIndex = 0,
            suggestionLeft = 0, suggestionTop = 0\<rparr>"]
  by (simp add: is_word_key_def trailing_run_def is_sep_def)

text \<open>
  C5. Backspace drops the last character of the stack and leaves value, list and
  index alone. The overlay anchor is recomputed exactly when the stack was
  \<^emph>\<open>already\<close> empty before the key, not when the key empties it.
\<close>

theorem erase_drops_last_char:
  assumes "keyCode ev = 8"
  shows "\<exists>s'. handleKeyPress parse p (Some input) ev s = Inr (s', no_effects)
     \<and> stack s' = butlast (stack s) \<and> value' s' = value' s
     \<and> suggestionList s' = suggestionList s \<and> selectedIndex s' = selectedIndex s
     \<and> (suggestionLeft s', suggestionTop s') =
          (if stack s = [] then caret_anchor input else (suggestionLeft s, suggestionTop s))"
  using assms by (simp add: handleKeyPress_erase updateSuggestionPos_Some js_slice_neg_def butlast_conv_take)

theorem erase_drops_last_char_witness:
  "\<exists>s'. handleKeyPress (\<lambda>x. x) \<lparr>p_type = Text, p_value = [], has_onChange = True, has_onKeyDown = False\<rparr>
       (Some \<lparr>tagName = INPUT, dom_value = ''ami'', selectionStart = 3, offsetLeft = 0,
              offsetTop = 0, offsetWidth = 100, offsetHeight = 20, mirror_layout = (\<lambda>a b. (0, 0))\<rparr>)
       \<lparr>keyCode = 8, key = ''Backspace''\<rparr>
       \<lparr>value' = ''ami'', stack = ''ami'', suggestionList = [''AMI''], selectedIndex = 0,
        suggestionLeft = 7, suggestionTop = 9\<rparr> = Inr (s', no_effects)
     \<and> stack s' = ''am'' \<and> (suggestionLeft s', suggestionTop s') = (7, 9)"
  using erase_drops_last_char
      [of "\<lparr>keyCode = 8, key = ''Backspace''\<rparr>" "\<lambda>x. x"
          "\<lparr>p_type = Text, p_value = [], has_onChange = True, has_onKeyDown = False\<rparr>"
          "\<lparr>tagName = INPUT, dom_value = ''ami'', selectionStart = 3, offsetLeft = 0,
            offsetTop = 0, offsetWidth = 100, offsetHeight = 20, mirror_layout = (\<lambda>a b. (0, 0))\<rparr>"
          "\<lparr>value' = ''ami'', stack = ''ami'', suggestionList = [''AMI''], selectedIndex = 0,
            suggestionLeft = 7, suggestionTop = 9\<rparr>"]
  by auto

text \<open>
  C6. A value change stores the surface's text and puts the transliteration of the
  stack, as it stands, into slot 0; the anchor is recomputed exactly when the value
  \<^emph>\<open>before\<close> the change was empty (the handler reads \<open>this.state.value\<close>, which
  the batched \<open>setState\<close> has not yet changed).
\<close>

theorem change_sets_slot0:
  "\<exists>s'. handleChange parse (Some input) v s = Inr s'
     \<and> value' s' = v \<and> suggestionList s' ! 0 = parse (stack s)
     \<and> stack s' = stack s \<and> selectedIndex s' = selectedIndex s
     \<and> (suggestionLeft s', suggestionTop s') =
          (if value' s = [] then caret_anchor input else (suggestionLeft s, suggestionTop s))"
  by (simp add: handleChange_def updateSuggestionPos_Some)

text \<open>
  C7. Focus loss abandons the composition: empty stack, index 0, empty slot 0, value
  unchanged; doing it twice is doing it once.
\<close>

theorem blur_resets_composition:
  "stack (handleBlurChange s) = [] \<and> selectedIndex (handleBlurChange s) = 0
   \<and> suggestionList (handleBlurChange s) ! 0 = [] \<and> value' (handleBlurChange s) = value' s
   \<and> handleBlurChange (handleBlurChange s) = handleBlurChange s"
  by (simp add: handleBlurChange_def set_slot0_def)

text \<open>
  C10. With more than one suggestion, Up moves the selection one back and Down one on,
  both circularly (modulo the list length); nothing else changes.
\<close>

theorem cycle_keys_move_circularly:
  assumes "wf_state s" and "1 < length (suggestionList s)"
  shows "handleKeyPress parse p ti \<lparr>keyCode = 38, key = k\<rparr> s =
           Inr (s\<lparr>selectedIndex := (selectedIndex s + length (suggestionList s) - 1)
                                    mod length (suggestionList s)\<rparr>, no_effects)
       \<and> handleKeyPress parse p ti \<lparr>keyCode = 40, key = k'\<rparr> s =
           Inr (s\<lparr>selectedIndex := (selectedIndex s + 1) mod length (suggestionList s)\<rparr>, no_effects)"
  using assms by (simp add: handleKeyPress_cycle wf_state_def cycle_up_mod cycle_down_mod)

theorem cycle_keys_move_circularly_witness:
  "handleKeyPress (\<lambda>x. x) \<lparr>p_type = Text, p_value = [], has_onChange = True, has_onKeyDown = False\<rparr> None
       \<lparr>keyCode = 38, key = ''ArrowUp''\<rparr>
       \<lparr>value' = [], stack = [], suggestionList = [''X'', ''Y'', ''Z''], selectedIndex = 0,
        suggestionLeft = 0, suggestionTop = 0\<rparr>
   = Inr (\<lparr>value' = [], stack = [], suggestionList = [''X'', ''Y'', ''Z''], selectedIndex = 2,
          suggestionLeft = 0, suggestionTop = 0\<rparr>, no_effects)"
  using cycle_keys_move_circularly
      [of "\<lparr>value' = [], stack = [], suggestionList = [''X'', ''Y'', ''Z''], selectedIndex = 0,
            suggestionLeft = 0, suggestionTop = 0\<rparr>" "\<lambda>x. x"
          "\<lparr>p_type = Text, p_value = [], has_onChange = True, has_onKeyDown = False\<rparr>" None
          "''ArrowUp''" "''ArrowDown''"]
  by (simp add: wf_state_def)

text \<open>
  C11. The calls to the embedding application: a commit calls \<open>onChange\<close> once with
  the committed text (when the prop is given); Enter then suppresses the default and
  forwards the event to \<open>onKeyDown\<close>; Space does neither; every other key makes no
  call at all.
\<close>

theorem commit_callbacks:
  assumes "handleKeyPress parse p ti ev s = Inr (s', eff)"
  shows "calls eff =
           (if is_commit_key (keyCode ev) then
              (if has_onChange p then [OnChange (value' s')] else [])
              @ (if keyCode ev = 13 then PreventDefault # (if has_onKeyDown p then [OnKeyDown ev] else [])
                 else [])
            else [])"
proof (cases rule: handleKeyPress_cases [where ev = ev and s = s])
  case commit
  with assms have "calls eff = commit_calls p ev (value' s')"
    by (simp add: handleKeyPress_commit commit_key_calls)
  with commit show ?thesis by (simp add: commit_calls_def)
next
  case word
  with assms show ?thesis
    by (auto simp: handleKeyPress_word no_effects_def is_word_key_def is_commit_key_def split: option.splits)
next
  case cycle
  with assms show ?thesis
    by (auto simp: handleKeyPress_cycle no_effects_def is_commit_key_def)
next
  case erase
  with assms show ?thesis
    by (auto simp: handleKeyPress_erase no_effects_def is_commit_key_def split: if_splits sum.splits)
next
  case other
  with assms show ?thesis by (auto simp: handleKeyPress_other no_effects_def)
qed

theorem commit_callbacks_witness:
  "calls (snd (projr (handleKeyPress (\<lambda>x. ''X'') \<lparr>p_type = Text, p_value = [], has_onChange = True, has_onKeyDown = True\<rparr>
       (Some \<lparr>tagName = INPUT, dom_value = ''ab'', selectionStart = 2, offsetLeft = 0,
              offsetTop = 0, offsetWidth = 100, offsetHeight = 20, mirror_layout = (\<lambda>a b. (0, 0))\<rparr>)
       \<lparr>keyCode = 13, key = ''Enter''\<rparr>
       \<lparr>value' = ''ab'', stack = [], suggestionList = [[]], selectedIndex = 0,
        suggestionLeft = 0, suggestionTop = 0\<rparr>)))
   = [OnChange ''X'', PreventDefault, OnKeyDown \<lparr>keyCode = 13, key = ''Enter''\<rparr>]"
proof -
  let ?p = "\<lparr>p_type = Text, p_value = [], has_onChange = True, has_onKeyDown = True\<rparr>"
  let ?i = "\<lparr>tagName = INPUT, dom_value = ''ab'', selectionStart = 2, offsetLeft = 0,
              offsetTop = 0, offsetWidth = 100, offsetHeight = 20, mirror_layout = (\<lambda>a b. (0, 0))\<rparr>"
  let ?e = "\<lparr>keyCode = 13, key = ''Enter''\<rparr>"
  let ?s = "\<lparr>value' = ''ab'', stack = [], suggestionList = [[]], selectedIndex = 0,
        suggestionLeft = 0, suggestionTop = 0\<rparr>"
  obtain r where r: "handleKeyPress (\<lambda>x. ''X'') ?p (Some ?i) ?e ?s = Inr r"
    by (simp add: handleKeyPress_commit is_commit_key_def commit_key_def commit_text_fallback
                  updateSuggestionPos_Some)
  have v: "value' (fst r) = ''X''"
    using r by (auto simp: handleKeyPress_commit is_commit_key_def commit_key_def
                           commit_text_fallback updateSuggestionPos_Some)
  have "calls (snd r) = [OnChange ''X'', PreventDefault, OnKeyDown ?e]"
    using commit_callbacks [of "\<lambda>x. ''X''" ?p "Some ?i" ?e ?s "fst r" "snd r"] r v
    by (simp add: is_commit_key_def)
  with r show ?thesis by simp
qed

text \<open>
  C14. Without an attached element (\<open>this.textInput\<close> is \<open>null\<close>) a word key or a
  commit key throws a \<open>TypeError\<close> from \<open>this.textInput!.selectionStart!\<close>
  before any state change; the spec's "no-op" is not what the code does.
\<close>

theorem detached_keys_throw:
  assumes "is_word_key (keyCode ev) \<or> is_commit_key (keyCode ev)"
  shows "handleKeyPress parse p None ev s = Inl TypeError"
  using assms by (auto simp: handleKeyPress_word handleKeyPress_commit commit_key_no_surface)

theorem detached_keys_throw_witness:
  "handleKeyPress (\<lambda>x. x) \<lparr>p_type = Text, p_value = [], has_onChange = True, has_onKeyDown = False\<rparr> None
       \<lparr>keyCode = 32, key = '' ''\<rparr> init_state = Inl TypeError"
  using detached_keys_throw [of "\<lparr>keyCode = 32, key = '' ''\<rparr>"] by (simp add: is_commit_key_def)

text \<open>
  C15. When the selected slot holds the transliteration of the stack, the caret offset
  the commit computes by splicing equals the one \<open>getStackRange\<close> computes first
  (and the code then overwrites): the two computations of \<open>end\<close> agree.
\<close>

theorem commit_caret_is_getStackRange:
  assumes "wf_state s" and "stack s \<noteq> []" and "stack s \<noteq> '' ''"
    and "take sel (value' s) = u @ stack s"
    and "suggestionList s ! selectedIndex s = parse (stack s)"
  shows "\<exists>fv. commit_text parse sel s = Inr (fv, getStackRange parse (stack s) (value' s) sel)"
proof -
  have len: "length (take sel (value' s)) = length u + length (stack s)"
    using assms(4) by simp
  have "getStackRange parse (stack s) (value' s) sel = length u + length (parse (stack s))"
    using assms(2) len by (simp add: getStackRange_eq)
  with commit_text_splice [OF assms(1-4), of parse] assms(5) show ?thesis by simp
qed

theorem commit_caret_is_getStackRange_witness:
  "\<exists>fv. commit_text (map (\<lambda>c. if c = CHR ''a'' then CHR ''A'' else c)) 4
      \<lparr>value' = ''x ab'', stack = ''ab'', suggestionList = [''Ab''], selectedIndex = 0,
       suggestionLeft = 0, suggestionTop = 0\<rparr>
    = Inr (fv, 4)"
proof -
  let ?s = "\<lparr>value' = ''x ab'', stack = ''ab'', suggestionList = [''Ab''], selectedIndex = 0,
       suggestionLeft = 0, suggestionTop = 0\<rparr>"
  let ?f = "map (\<lambda>c. if c = CHR ''a'' then CHR ''A'' else c)"
  have "\<exists>fv. commit_text ?f 4 ?s = Inr (fv, getStackRange ?f (stack ?s) (value' ?s) 4)"
    using commit_caret_is_getStackRange [of ?s 4 "''x ''" ?f] by (simp add: wf_state_def)
  then show ?thesis by (simp add: getStackRange_def js_substring0_def js_slice_neg_def eval_nat_numeral)
qed

end
