(* ===== verification/Session.thy ===== *)
theory Session
  imports Controller
begin

text \<open>
  A mounted \<open>AvroInput\<close> over a sequence of notifications. The component is its
  React state and its DOM element; an event is one notification the browser delivers:
  the mount, a key-down, an edit of the element's text (the \<open>onChange\<close> of a
  controlled element, carrying the new text and caret the browser's default action
  produced), a move of the caret without an edit (arrow keys, a click: the element
  fires no handler of \<open>AvroInput\<close>), or a focus loss. Each event runs its handler to completion, then React
  re-renders: the controlled element takes the state's value, and the caret goes where
  the \<open>setState\<close> callback put it (clamped to the text, as the DOM's
  \<open>selectionStart\<close> setter does), or to the end when React replaces a different
  text. The browser's editing and React's rendering are not code of the repository:
  they are modelled from the spec's host-surface contract (\<open>rerender\<close>, the
  \<open>Input\<close> event).
\<close>

record component =
  st :: avro_state
  dom :: "surface option"

datatype event = Mount | KeyDown key_event | Input jstr nat | Caret nat | Blur

definition rerender :: "avro_state \<Rightarrow> nat option \<Rightarrow> surface \<Rightarrow> surface" where
  "rerender s c input =
     input\<lparr>dom_value := value' s,
           selectionStart :=
             (case c of
                Some e \<Rightarrow> min e (length (value' s))
              | None \<Rightarrow> if dom_value input = value' s then selectionStart input else length (value' s))\<rparr>"

fun dispatch :: "translit \<Rightarrow> props \<Rightarrow> component \<Rightarrow> event \<Rightarrow> js_error + component \<times> callback list" where
  "dispatch parse p c Mount =
     (case componentDidMount p (dom c) (st c) of
        Inl e \<Rightarrow> Inl e
      | Inr s' \<Rightarrow> Inr (c\<lparr>st := s', dom := map_option (rerender s' None) (dom c)\<rparr>, []))"
| "dispatch parse p c (KeyDown ev) =
     (case handleKeyPress parse p (dom c) ev (st c) of
        Inl e \<Rightarrow> Inl e
      | Inr (s', eff) \<Rightarrow>
          Inr (c\<lparr>st := s', dom := map_option (rerender s' (caret_set eff)) (dom c)\<rparr>, calls eff))"
| "dispatch parse p c (Input txt pos) =
     (let d = map_option (\<lambda>i. i\<lparr>dom_value := txt, selectionStart := pos\<rparr>) (dom c)
      in case handleChange parse d txt (st c) of
           Inl e \<Rightarrow> Inl e
         | Inr s' \<Rightarrow> Inr (c\<lparr>st := s', dom := d\<rparr>, []))"
| "dispatch parse p c (Caret pos) =
     Inr (c\<lparr>dom := map_option (\<lambda>i. i\<lparr>selectionStart := min pos (length (dom_value i))\<rparr>) (dom c)\<rparr>, [])"
| "dispatch parse p c Blur =
     (if blur_attached p then Inr (c\<lparr>st := handleBlurChange (st c)\<rparr>, []) else Inr (c, []))"

text \<open>A run stops at the first handler that throws; the callbacks are concatenated.\<close>

fun run :: "translit \<Rightarrow> props \<Rightarrow> component \<Rightarrow> event list \<Rightarrow> js_error + component \<times> callback list" where
  "run parse p c [] = Inr (c, [])"
| "run parse p c (e # es) =
     (case dispatch parse p c e of
        Inl err \<Rightarrow> Inl err
      | Inr (c', out) \<Rightarrow>
          (case run parse p c' es of
             Inl err \<Rightarrow> Inl err
           | Inr (c'', out') \<Rightarrow> Inr (c'', out @ out')))"

text \<open>
  The states a mounted component can reach: the constructor's state on the element
  \<open>render\<close> drew (empty text), closed under every event that does not throw.
\<close>

inductive reachable :: "translit \<Rightarrow> props \<Rightarrow> component \<Rightarrow> bool" for parse p where
  start: "tagName i = surface_tag p \<Longrightarrow> dom_value i = [] \<Longrightarrow>
          reachable parse p \<lparr>st = init_state, dom = Some i\<rparr>"
| step: "reachable parse p c \<Longrightarrow> dispatch parse p c e = Inr (c', out) \<Longrightarrow>
          reachable parse p c'"

text \<open>
  The invariant of a mounted component: the element is attached, of the kind the props
  ask for, shows the state's value, and the list has its single slot.
\<close>

definition session_inv :: "props \<Rightarrow> component \<Rightarrow> bool" where
  "session_inv p c \<longleftrightarrow>
     (\<exists>i. dom c = Some i \<and> tagName i = surface_tag p \<and> dom_value i = value' (st c))
     \<and> single_slot (st c)"

text \<open>
  Typing a word at the end of the text, as the browser delivers it: for each
  character, its key-down (with the key code the keyboard gives it) and then the edit
  that appends it, with the caret after it.
\<close>

fun typing :: "(char \<Rightarrow> nat) \<Rightarrow> jstr \<Rightarrow> jstr \<Rightarrow> event list" where
  "typing code u [] = []"
| "typing code u (ch # w) =
     KeyDown \<lparr>keyCode = code ch, key = [ch]\<rparr> # Input (u @ [ch]) (Suc (length u))
     # typing code (u @ [ch]) w"

text \<open>The element shows the text \<open>u\<close> with the caret at its end, and slot 0 is selected.\<close>

definition at_end :: "component \<Rightarrow> jstr \<Rightarrow> bool" where
  "at_end c u \<longleftrightarrow>
     (\<exists>i. dom c = Some i \<and> dom_value i = u \<and> selectionStart i = length u)
     \<and> value' (st c) = u \<and> selectedIndex (st c) = 0"

lemma rerender_fields [simp]:
  "tagName (rerender s c i) = tagName i" "dom_value (rerender s c i) = value' s"
  by (simp_all add: rerender_def)

lemma rerender_same: "dom_value i = value' s \<Longrightarrow> rerender s None i = i"
  by (simp add: rerender_def)

lemma dispatch_inv:
  assumes inv: "session_inv p c" and ok: "dispatch parse p c e = Inr (c', out)"
  shows "session_inv p c'"
proof (cases e)
  case Mount
  with inv ok show ?thesis
    by (auto simp: session_inv_def dest: componentDidMount_single_slot split: sum.splits)
next
  case (KeyDown ev)
  with inv ok show ?thesis
    by (auto simp: session_inv_def dest: handleKeyPress_single_slot split: sum.splits)
next
  case (Input t pos)
  with inv ok show ?thesis
    by (auto simp: session_inv_def handleChange_def updateSuggestionPos_Some Let_def single_slot_def
             split: if_splits)
next
  case (Caret pos)
  with inv ok show ?thesis by (auto simp: session_inv_def)
next
  case Blur
  with inv ok show ?thesis
    by (auto simp: session_inv_def handleBlurChange_single_slot split: if_splits)
qed

lemma reachable_session_inv: "reachable parse p c \<Longrightarrow> session_inv p c"
proof (induction rule: reachable.induct)
  case (start i)
  then show ?case by (simp add: session_inv_def single_slot_def init_state_def)
next
  case (step c e c' out)
  then show ?case by (blast intro: dispatch_inv)
qed

text \<open>The unfoldings that evaluate a concrete run by simplification.\<close>

lemma dispatch_returns:
  assumes "session_inv p c"
  shows "\<exists>c' out. dispatch parse p c e = Inr (c', out)"
proof -
  from assms obtain i where i: "dom c = Some i" and wf: "wf_state (st c)"
    by (auto simp: session_inv_def single_slot_wf)
  show ?thesis
  proof (cases e)
    case (KeyDown ev)
    from handleKeyPress_attached_returns [OF wf, of parse p i ev] i KeyDown show ?thesis
      by auto
  qed (use i in \<open>auto simp: componentDidMount_def updateSuggestionPos_Some handleChange_def Let_def\<close>)
qed

lemmas run_eval =
  componentDidMount_def updateSuggestionPos_Some rerender_def handleKeyPress_def
  is_word_key_def is_commit_key_def getCurrentStack_def js_split_sep_def is_sep_def
  handleChange_def commit_key_def commit_text_def js_slice_neg_def js_simps
  init_state_def set_slot0_def js_set0_def no_effects_def commit_calls_def Let_def
  handleBlurChange_def blur_attached_def

subsection \<open>Typing a word\<close>

lemma run_append:
  "run parse p c (xs @ ys) =
     (case run parse p c xs of
        Inl e \<Rightarrow> Inl e
      | Inr (c', out) \<Rightarrow>
          (case run parse p c' ys of Inl e \<Rightarrow> Inl e | Inr (c'', out') \<Rightarrow> Inr (c'', out @ out')))"
  by (induction xs arbitrary: c) (auto split: sum.splits prod.splits)

lemma typing_step:
  assumes "at_end c u" and "is_word_key (code ch)"
  shows "\<exists>c'. run parse p c (typing code u [ch]) = Inr (c', []) \<and> at_end c' (u @ [ch])
     \<and> stack (st c') = trailing_run u @ [ch] \<and> suggestionList (st c') \<noteq> []
     \<and> suggestionList (st c') ! 0 = parse (trailing_run u @ [ch])"
proof -
  from assms(1) obtain i where i: "dom c = Some i" "dom_value i = u" "selectionStart i = length u"
    and v: "value' (st c) = u" and ix: "selectedIndex (st c) = 0"
    by (auto simp: at_end_def)
  show ?thesis
    using assms(2) i v ix
    by (simp add: word_key_stack rerender_same no_effects_def handleChange_def updateSuggestionPos_Some
                  Let_def at_end_def set_slot0_def)
qed

lemma typing_run:
  assumes "at_end c u" and "\<forall>ch \<in> set w. is_word_key (code ch) \<and> \<not> is_sep ch"
  shows "\<exists>c'. run parse p c (typing code u w) = Inr (c', []) \<and> at_end c' (u @ w)
     \<and> (w \<noteq> [] \<longrightarrow> stack (st c') = trailing_run (u @ w) \<and> suggestionList (st c') \<noteq> []
          \<and> suggestionList (st c') ! 0 = parse (trailing_run (u @ w)))"
  using assms
proof (induction w arbitrary: c u)
  case Nil
  then show ?case by simp
next
  case (Cons ch w)
  from Cons.prems(2) have k: "is_word_key (code ch)" and ns: "\<not> is_sep ch" by auto
  have tr: "trailing_run u @ [ch] = trailing_run (u @ [ch])"
    using ns by (simp add: trailing_run_append_no_sep)
  from typing_step [where code = code and ch = ch and parse = parse and p = p, OF Cons.prems(1) k] obtain c1 where
    r1: "run parse p c (typing code u [ch]) = Inr (c1, [])" and e1: "at_end c1 (u @ [ch])"
    and c1: "stack (st c1) = trailing_run (u @ [ch])" "suggestionList (st c1) \<noteq> []"
            "suggestionList (st c1) ! 0 = parse (trailing_run (u @ [ch]))"
    unfolding tr by blast
  from Cons.IH [OF e1] Cons.prems(2) obtain c' where
    r2: "run parse p c1 (typing code (u @ [ch]) w) = Inr (c', [])" and e2: "at_end c' (u @ [ch] @ w)"
    and c': "w \<noteq> [] \<longrightarrow> stack (st c') = trailing_run (u @ [ch] @ w) \<and> suggestionList (st c') \<noteq> []
          \<and> suggestionList (st c') ! 0 = parse (trailing_run (u @ [ch] @ w))"
    by auto
  have "typing code u (ch # w) = typing code u [ch] @ typing code (u @ [ch]) w" by simp
  then have r: "run parse p c (typing code u (ch # w)) = Inr (c', [])"
    using r1 r2 by (simp add: run_append del: typing.simps)
  show ?case
  proof (cases "w = []")
    case True
    with r1 e1 c1 show ?thesis by (auto simp del: typing.simps)
  next
    case False
    with r e2 c' show ?thesis by simp
  qed
qed

subsection \<open>Properties of sessions\<close>

text \<open>
  C9. In every reachable state the list has exactly one slot and the index is 0: no
  handler ever adds a suggestion, so the Up/Down branch of \<open>handleKeyPress\<close> is dead
  code and the arrow keys leave the component exactly as it was.
\<close>

theorem reachable_single_slot:
  assumes "reachable parse p c"
  shows "length (suggestionList (st c)) = 1 \<and> selectedIndex (st c) = 0
       \<and> (keyCode ev = 38 \<or> keyCode ev = 40 \<longrightarrow> dispatch parse p c (KeyDown ev) = Inr (c, []))"
proof -
  from assms have inv: "session_inv p c" by (rule reachable_session_inv)
  then obtain i where i: "dom c = Some i" "dom_value i = value' (st c)" and ss: "single_slot (st c)"
    by (auto simp: session_inv_def)
  have "keyCode ev = 38 \<or> keyCode ev = 40 \<longrightarrow> dispatch parse p c (KeyDown ev) = Inr (c, [])"
    using i ss by (auto simp: handleKeyPress_arrow_single_slot rerender_same no_effects_def)
  with ss show ?thesis by (simp add: single_slot_def)
qed

theorem reachable_single_slot_witness:
  "length (suggestionList init_state) = 1 \<and>
   dispatch (\<lambda>x. x) \<lparr>p_type = Text, p_value = [], has_onChange = True, has_onKeyDown = False\<rparr>
      \<lparr>st = init_state, dom = Some \<lparr>tagName = INPUT, dom_value = [], selectionStart = 0, offsetLeft = 0,
              offsetTop = 0, offsetWidth = 100, offsetHeight = 20, mirror_layout = (\<lambda>a b. (0, 0))\<rparr>\<rparr>
      (KeyDown \<lparr>keyCode = 38, key = ''ArrowUp''\<rparr>)
   = Inr (\<lparr>st = init_state, dom = Some \<lparr>tagName = INPUT, dom_value = [], selectionStart = 0, offsetLeft = 0,
              offsetTop = 0, offsetWidth = 100, offsetHeight = 20, mirror_layout = (\<lambda>a b. (0, 0))\<rparr>\<rparr>, [])"
proof -
  let ?p = "\<lparr>p_type = Text, p_value = [], has_onChange = True, has_onKeyDown = False\<rparr>"
  let ?c = "\<lparr>st = init_state, dom = Some \<lparr>tagName = INPUT, dom_value = [], selectionStart = 0, offsetLeft = 0,
              offsetTop = 0, offsetWidth = 100, offsetHeight = 20, mirror_layout = (\<lambda>a b. (0, 0))\<rparr>\<rparr>"
  have r: "reachable (\<lambda>x. x) ?p ?c"
    by (rule reachable.start) (simp_all add: surface_tag_def)
  from reachable_single_slot [OF r, of "\<lparr>keyCode = 38, key = ''ArrowUp''\<rparr>"] show ?thesis by simp
qed

text \<open>
  C8. Composing and committing a word, for every transliteration and every word: on
  an element whose caret is at the end of its text \<open>u\<close> (empty or ending in a
  separator), typing a non-empty separator-free word \<open>w\<close> key by key (each
  key-down handled before the browser's edit) and then pressing Space replaces \<open>w\<close>
  by \<open>parse w\<close>: the state and the element hold \<open>u @ parse w\<close>, the caret is at
  its end, the composition is reset and the overlay hidden, and \<open>onChange\<close> is
  called exactly once, with the committed text.
\<close>

theorem compose_and_commit_word:
  assumes "dom c = Some i" and "dom_value i = u" and "selectionStart i = length u"
    and "value' (st c) = u" and "selectedIndex (st c) = 0"
    and "u = [] \<or> is_sep (last u)" and "w \<noteq> []"
    and "\<forall>ch \<in> set w. is_word_key (code ch) \<and> \<not> is_sep ch"
  shows "\<exists>c' out. run parse p c (typing code u w @ [KeyDown \<lparr>keyCode = 32, key = '' ''\<rparr>]) = Inr (c', out)
    \<and> value' (st c') = u @ parse w
    \<and> map_option dom_value (dom c') = Some (u @ parse w)
    \<and> map_option selectionStart (dom c') = Some (length u + length (parse w))
    \<and> stack (st c') = [] \<and> suggestionList (st c') ! 0 = []
    \<and> out = (if has_onChange p then [OnChange (u @ parse w)] else [])"
proof -
  have "at_end c u" using assms(1-5) by (auto simp: at_end_def)
  from typing_run [OF this assms(8), of parse p] assms(7) obtain c1 where
    r1: "run parse p c (typing code u w) = Inr (c1, [])" and e1: "at_end c1 (u @ w)"
    and c1: "stack (st c1) = trailing_run (u @ w)" "suggestionList (st c1) \<noteq> []"
            "suggestionList (st c1) ! 0 = parse (trailing_run (u @ w))"
    by auto
  have tw: "trailing_run (u @ w) = w"
    using assms(6,8) by (simp add: trailing_run_append_no_sep trailing_run_after_sep)
  from e1 obtain i1 where i1: "dom c1 = Some i1" "dom_value i1 = u @ w" "selectionStart i1 = length u + length w"
    and v1: "value' (st c1) = u @ w" and x1: "selectedIndex (st c1) = 0"
    by (auto simp: at_end_def)
  have wf: "wf_state (st c1)" using c1(2) x1 by (simp add: wf_state_def)
  have sp: "stack (st c1) \<noteq> '' ''" using assms(8) c1(1) tw by auto
  have "commit_text parse (selectionStart i1) (st c1) = Inr (u @ parse w, length u + length (parse w))"
    using commit_text_splice [where u = u and parse = parse and sel = "selectionStart i1", OF wf] c1 tw i1 v1 x1 assms(7) sp by simp
  from commit_key_result [OF this, of p "\<lparr>keyCode = 32, key = '' ''\<rparr>"] obtain s' where
    s': "commit_key parse p (Some i1) \<lparr>keyCode = 32, key = '' ''\<rparr> (st c1) =
           Inr (s', \<lparr>caret_set = Some (length u + length (parse w)),
                     calls = commit_calls p \<lparr>keyCode = 32, key = '' ''\<rparr> (u @ parse w)\<rparr>)"
      "value' s' = u @ parse w" "stack s' = []" "suggestionList s' = js_set0 (suggestionList (st c1)) []"
    by blast
  have "run parse p c1 [KeyDown \<lparr>keyCode = 32, key = '' ''\<rparr>] =
          Inr (c1\<lparr>st := s', dom := Some (rerender s' (Some (length u + length (parse w))) i1)\<rparr>,
               commit_calls p \<lparr>keyCode = 32, key = '' ''\<rparr> (u @ parse w))"
    using s'(1) i1(1) by (simp add: handleKeyPress_commit is_commit_key_def)
  with r1 s'(2-4) show ?thesis
    by (simp add: run_append rerender_def commit_calls_def)
qed

theorem compose_and_commit_word_witness:
  "\<exists>c' out. run rev \<lparr>p_type = Text, p_value = [], has_onChange = True, has_onKeyDown = False\<rparr>
      \<lparr>st = init_state, dom = Some \<lparr>tagName = INPUT, dom_value = [], selectionStart = 0, offsetLeft = 0,
              offsetTop = 0, offsetWidth = 100, offsetHeight = 20, mirror_layout = (\<lambda>a b. (0, 0))\<rparr>\<rparr>
      (typing (\<lambda>ch. 65) [] ''ami'' @ [KeyDown \<lparr>keyCode = 32, key = '' ''\<rparr>]) = Inr (c', out)
    \<and> value' (st c') = ''ima'' \<and> out = [OnChange ''ima'']"
proof -
  let ?p = "\<lparr>p_type = Text, p_value = [], has_onChange = True, has_onKeyDown = False\<rparr>"
  let ?i = "\<lparr>tagName = INPUT, dom_value = [], selectionStart = 0, offsetLeft = 0,
              offsetTop = 0, offsetWidth = 100, offsetHeight = 20, mirror_layout = (\<lambda>a b. (0, 0))\<rparr>"
  let ?c = "\<lparr>st = init_state, dom = Some ?i\<rparr>"
  have h: "component.dom ?c = Some ?i" "dom_value ?i = []" "selectionStart ?i = length ([] :: jstr)"
    "value' (st ?c) = []" "selectedIndex (st ?c) = 0" "[] = [] \<or> is_sep (last ([] :: jstr))"
    "''ami'' \<noteq> []" "\<forall>ch \<in> set ''ami''. is_word_key 65 \<and> \<not> is_sep ch"
    by (simp_all add: init_state_def is_word_key_def is_sep_def)
  from compose_and_commit_word [where code = "\<lambda>ch. 65" and parse = rev and p = ?p, OF h]
  obtain c' out where
    r: "run rev ?p ?c (typing (\<lambda>ch. 65) [] ''ami'' @ [KeyDown \<lparr>keyCode = 32, key = '' ''\<rparr>]) = Inr (c', out)"
    and v: "value' (st c') = [] @ rev ''ami''"
    and o: "out = (if has_onChange ?p then [OnChange ([] @ rev ''ami'')] else [])"
    by blast
  from v o have "value' (st c') = ''ima'' \<and> out = [OnChange ''ima'']" by simp
  with r show ?thesis by blast
qed

text \<open>
  C17. A key in the word range that inserts no text (a shortcut such as Ctrl+C, whose
  \<open>keyCode\<close> is 67 and \<open>key\<close> is \<open>'c'\<close>) still appends to the stack, so the stack
  no longer matches the text; the next commit cuts one character more than the token
  and swallows the space before it: \<open>x ab\<close> becomes \<open>x\<close> followed by the
  transliteration of \<open>ab\<close>.
\<close>

theorem shortcut_key_corrupts_commit:
  assumes "p_value p = []" and "dom_value i = []" and "selectionStart i = 0"
  shows "\<exists>c' out. run parse p \<lparr>st = init_state, dom = Some i\<rparr>
      [Mount, Input ''x '' 2,
       KeyDown \<lparr>keyCode = 65, key = ''a''\<rparr>, Input ''x a'' 3,
       KeyDown \<lparr>keyCode = 66, key = ''b''\<rparr>, Input ''x ab'' 4,
       KeyDown \<lparr>keyCode = 67, key = ''c''\<rparr>,
       KeyDown \<lparr>keyCode = 32, key = '' ''\<rparr>] = Inr (c', out)
    \<and> value' (st c') = ''x'' @ parse ''ab''"
  using assms by (simp add: run_eval)

theorem shortcut_key_corrupts_commit_witness:
  "\<exists>c' out. run (\<lambda>w. if w = ''ab'' then ''AB'' else w) \<lparr>p_type = Text, p_value = [], has_onChange = True, has_onKeyDown = False\<rparr> \<lparr>st = init_state, dom = Some \<lparr>tagName = INPUT, dom_value = [], selectionStart = 0, offsetLeft = 0,
              offsetTop = 0, offsetWidth = 100, offsetHeight = 20, mirror_layout = (\<lambda>a b. (0, 0))\<rparr>\<rparr>
      [Mount, Input ''x '' 2,
       KeyDown \<lparr>keyCode = 65, key = ''a''\<rparr>, Input ''x a'' 3,
       KeyDown \<lparr>keyCode = 66, key = ''b''\<rparr>, Input ''x ab'' 4,
       KeyDown \<lparr>keyCode = 67, key = ''c''\<rparr>,
       KeyDown \<lparr>keyCode = 32, key = '' ''\<rparr>] = Inr (c', out)
    \<and> value' (st c') = ''xAB''"
  using shortcut_key_corrupts_commit [of "\<lparr>p_type = Text, p_value = [], has_onChange = True, has_onKeyDown = False\<rparr>" "\<lparr>tagName = INPUT, dom_value = [], selectionStart = 0, offsetLeft = 0,
              offsetTop = 0, offsetWidth = 100, offsetHeight = 20, mirror_layout = (\<lambda>a b. (0, 0))\<rparr>" "\<lambda>w. if w = ''ab'' then ''AB'' else w"] by simp

text \<open>
  C18. Moving the caret without editing (here ArrowLeft, key code 37, which no branch
  of \<open>handleKeyPress\<close> handles) leaves the stack as it was, so it no longer ends at
  the caret; the next commit cuts the wrong span: after typing \<open>ab\<close> and moving
  the caret between \<open>a\<close> and \<open>b\<close>, Space yields \<open>parse ''ab''\<close> followed by
  a second \<open>b\<close>.
\<close>

theorem caret_move_corrupts_commit:
  assumes "p_value p = []" and "dom_value i = []" and "selectionStart i = 0"
  shows "\<exists>c' out. run parse p \<lparr>st = init_state, dom = Some i\<rparr>
      [Mount, KeyDown \<lparr>keyCode = 65, key = ''a''\<rparr>, Input ''a'' 1,
       KeyDown \<lparr>keyCode = 66, key = ''b''\<rparr>, Input ''ab'' 2,
       KeyDown \<lparr>keyCode = 37, key = ''ArrowLeft''\<rparr>, Caret 1,
       KeyDown \<lparr>keyCode = 32, key = '' ''\<rparr>] = Inr (c', out)
    \<and> value' (st c') = parse ''ab'' @ ''b''"
  using assms by (simp add: run_eval)

theorem caret_move_corrupts_commit_witness:
  "\<exists>c' out. run (\<lambda>w. w) \<lparr>p_type = Text, p_value = [], has_onChange = True, has_onKeyDown = False\<rparr> \<lparr>st = init_state, dom = Some \<lparr>tagName = INPUT, dom_value = [], selectionStart = 0, offsetLeft = 0,
              offsetTop = 0, offsetWidth = 100, offsetHeight = 20, mirror_layout = (\<lambda>a b. (0, 0))\<rparr>\<rparr>
      [Mount, KeyDown \<lparr>keyCode = 65, key = ''a''\<rparr>, Input ''a'' 1,
       KeyDown \<lparr>keyCode = 66, key = ''b''\<rparr>, Input ''ab'' 2,
       KeyDown \<lparr>keyCode = 37, key = ''ArrowLeft''\<rparr>, Caret 1,
       KeyDown \<lparr>keyCode = 32, key = '' ''\<rparr>] = Inr (c', out)
    \<and> value' (st c') = ''abb''"
  using caret_move_corrupts_commit [of "\<lparr>p_type = Text, p_value = [], has_onChange = True, has_onKeyDown = False\<rparr>" "\<lparr>tagName = INPUT, dom_value = [], selectionStart = 0, offsetLeft = 0,
              offsetTop = 0, offsetWidth = 100, offsetHeight = 20, mirror_layout = (\<lambda>a b. (0, 0))\<rparr>" "\<lambda>w. w"] by simp

text \<open>
  C20. Under the spec's ordering contract (the key-down is handled before the edit it
  causes), typing keeps the stack equal to the run before the caret: from any
  component whose caret lies inside its text, a word key with separator-free text
  \<open>t\<close>, followed by the browser inserting \<open>t\<close> at the caret, leaves the stack
  equal to the separator-free run that ends at the new caret.
\<close>

theorem typing_tracks_run:
  assumes "dom c = Some i" and "is_word_key k" and "\<forall>ch \<in> set t. \<not> is_sep ch"
    and "selectionStart i \<le> length (value' (st c))"
  shows "\<exists>c1 out1 c2 out2.
      dispatch parse p c (KeyDown \<lparr>keyCode = k, key = t\<rparr>) = Inr (c1, out1)
    \<and> dispatch parse p c1 (Input (take (selectionStart i) (value' (st c)) @ t @ drop (selectionStart i) (value' (st c)))
                                (selectionStart i + length t)) = Inr (c2, out2)
    \<and> value' (st c2) = take (selectionStart i) (value' (st c)) @ t @ drop (selectionStart i) (value' (st c))
    \<and> stack (st c2) = trailing_run (take (selectionStart i + length t) (value' (st c2)))"
proof -
  let ?q = "selectionStart i" and ?v = "value' (st c)"
  let ?w = "take ?q ?v @ t @ drop ?q ?v"
  let ?s1 = "(st c)\<lparr>stack := trailing_run (take ?q ?v) @ t\<rparr>"
  let ?c1 = "c\<lparr>st := ?s1, dom := Some (rerender ?s1 None i)\<rparr>"
  have d1: "dispatch parse p c (KeyDown \<lparr>keyCode = k, key = t\<rparr>) = Inr (?c1, [])"
    using assms(1,2) by (simp add: word_key_stack no_effects_def)
  obtain s2 where s2: "handleChange parse (Some ((rerender ?s1 None i)\<lparr>dom_value := ?w, selectionStart := ?q + length t\<rparr>)) ?w ?s1 = Inr s2"
      and v2: "value' s2 = ?w" and st2: "stack s2 = trailing_run (take ?q ?v) @ t"
    using handleChange_attached by fastforce
  have d2: "dispatch parse p ?c1 (Input ?w (?q + length t)) = Inr (?c1\<lparr>st := s2, dom := Some ((rerender ?s1 None i)\<lparr>dom_value := ?w, selectionStart := ?q + length t\<rparr>)\<rparr>, [])"
    using s2 by simp
  have tk: "take (?q + length t) ?w = take ?q ?v @ t"
    using assms(4) by simp
  have "trailing_run (take (?q + length t) (value' s2)) = stack s2"
    unfolding v2 tk st2 using assms(3) by (rule trailing_run_append_no_sep)
  with d1 d2 v2 show ?thesis by fastforce
qed

theorem typing_tracks_run_witness:
  "\<exists>c1 out1 c2 out2.
      dispatch (\<lambda>w. w) \<lparr>p_type = Text, p_value = [], has_onChange = True, has_onKeyDown = False\<rparr> \<lparr>st = init_state\<lparr>value' := ''x a''\<rparr>, dom = Some (\<lparr>tagName = INPUT, dom_value = [], selectionStart = 0, offsetLeft = 0,
              offsetTop = 0, offsetWidth = 100, offsetHeight = 20, mirror_layout = (\<lambda>a b. (0, 0))\<rparr>\<lparr>dom_value := ''x a'', selectionStart := 3\<rparr>)\<rparr>
        (KeyDown \<lparr>keyCode = 66, key = ''b''\<rparr>) = Inr (c1, out1)
    \<and> dispatch (\<lambda>w. w) \<lparr>p_type = Text, p_value = [], has_onChange = True, has_onKeyDown = False\<rparr> c1 (Input ''x ab'' 4) = Inr (c2, out2)
    \<and> stack (st c2) = ''ab''"
proof -
  let ?p = "\<lparr>p_type = Text, p_value = [], has_onChange = True, has_onKeyDown = False\<rparr>"
  let ?i = "\<lparr>tagName = INPUT, dom_value = [], selectionStart = 0, offsetLeft = 0,
              offsetTop = 0, offsetWidth = 100, offsetHeight = 20, mirror_layout = (\<lambda>a b. (0, 0))\<rparr>\<lparr>dom_value := ''x a'', selectionStart := 3\<rparr>"
  let ?c = "\<lparr>st = init_state\<lparr>value' := ''x a''\<rparr>, dom = Some ?i\<rparr>"
  have h: "component.dom ?c = Some ?i" "is_word_key 66" "\<forall>ch \<in> set ''b''. \<not> is_sep ch"
          "selectionStart ?i \<le> length (value' (st ?c))"
    by (simp_all add: is_word_key_def is_sep_def init_state_def)
  obtain c1 out1 c2 out2 where
      a: "dispatch (\<lambda>w. w) ?p ?c (KeyDown \<lparr>keyCode = 66, key = ''b''\<rparr>) = Inr (c1, out1)"
    and b: "dispatch (\<lambda>w. w) ?p c1 (Input (take (selectionStart ?i) (value' (st ?c)) @ ''b'' @ drop (selectionStart ?i) (value' (st ?c)))
                          (selectionStart ?i + length ''b'')) = Inr (c2, out2)"
    and v: "value' (st c2) = take (selectionStart ?i) (value' (st ?c)) @ ''b'' @ drop (selectionStart ?i) (value' (st ?c))"
    and r: "stack (st c2) = trailing_run (take (selectionStart ?i + length ''b'') (value' (st c2)))"
    using typing_tracks_run [of ?c ?i 66 "''b''" "\<lambda>w. w" ?p, OF h] by blast
  have e1: "take (selectionStart ?i) (value' (st ?c)) @ ''b'' @ drop (selectionStart ?i) (value' (st ?c)) = ''x ab''"
    by (simp add: init_state_def)
  have e2: "selectionStart ?i + length ''b'' = 4" by simp
  have e3: "trailing_run (take 4 ''x ab'') = ''ab''" by (simp add: trailing_run_def is_sep_def)
  from a b [unfolded e1 e2] v [unfolded e1] r [unfolded e2] e3 show ?thesis by auto
qed

text \<open>
  C21. Erasing under the same contract: when the stack is the non-empty run before the
  caret, Backspace followed by the browser deleting the character before the caret
  leaves the stack equal to the run before the new caret.
\<close>

theorem erasing_tracks_run:
  assumes "dom c = Some i" and "stack (st c) \<noteq> []"
    and "stack (st c) = trailing_run (take (selectionStart i) (value' (st c)))"
    and "0 < selectionStart i" and "selectionStart i \<le> length (value' (st c))"
  shows "\<exists>c1 out1 c2 out2.
      dispatch parse p c (KeyDown \<lparr>keyCode = 8, key = ''Backspace''\<rparr>) = Inr (c1, out1)
    \<and> dispatch parse p c1 (Input (take (selectionStart i - 1) (value' (st c)) @ drop (selectionStart i) (value' (st c)))
                                (selectionStart i - 1)) = Inr (c2, out2)
    \<and> value' (st c2) = take (selectionStart i - 1) (value' (st c)) @ drop (selectionStart i) (value' (st c))
    \<and> stack (st c2) = trailing_run (take (selectionStart i - 1) (value' (st c2)))"
proof -
  let ?q = "selectionStart i" and ?v = "value' (st c)"
  let ?w = "take (?q - 1) ?v @ drop ?q ?v"
  let ?s1 = "(st c)\<lparr>stack := butlast (stack (st c))\<rparr>"
  let ?c1 = "c\<lparr>st := ?s1, dom := Some (rerender ?s1 None i)\<rparr>"
  have d1: "dispatch parse p c (KeyDown \<lparr>keyCode = 8, key = ''Backspace''\<rparr>) = Inr (?c1, [])"
    using assms(1,2) by (simp add: erase_stack no_effects_def)
  obtain s2 where s2: "handleChange parse (Some ((rerender ?s1 None i)\<lparr>dom_value := ?w, selectionStart := ?q - 1\<rparr>)) ?w ?s1 = Inr s2"
      and v2: "value' s2 = ?w" and st2: "stack s2 = butlast (stack (st c))"
    using handleChange_attached by fastforce
  have d2: "dispatch parse p ?c1 (Input ?w (?q - 1)) = Inr (?c1\<lparr>st := s2, dom := Some ((rerender ?s1 None i)\<lparr>dom_value := ?w, selectionStart := ?q - 1\<rparr>)\<rparr>, [])"
    using s2 by simp
  have w: "take ?q ?v \<noteq> [] \<and> \<not> is_sep (last (take ?q ?v))"
    using assms(2,3) trailing_run_nonempty_last by metis
  have "take (?q - 1) ?w = butlast (take ?q ?v)"
    using assms(4,5) by (simp add: butlast_take)
  moreover have "trailing_run (butlast (take ?q ?v)) = butlast (stack (st c))"
    using w assms(3) by (simp add: trailing_run_butlast)
  ultimately have "trailing_run (take (?q - 1) (value' s2)) = stack s2"
    using v2 st2 by simp
  with d1 d2 v2 show ?thesis by fastforce
qed

theorem erasing_tracks_run_witness:
  "\<exists>c1 out1 c2 out2.
      dispatch (\<lambda>w. w) \<lparr>p_type = Text, p_value = [], has_onChange = True, has_onKeyDown = False\<rparr> \<lparr>st = init_state\<lparr>value' := ''x ab'', stack := ''ab''\<rparr>,
                           dom = Some (\<lparr>tagName = INPUT, dom_value = [], selectionStart = 0, offsetLeft = 0,
              offsetTop = 0, offsetWidth = 100, offsetHeight = 20, mirror_layout = (\<lambda>a b. (0, 0))\<rparr>\<lparr>dom_value := ''x ab'', selectionStart := 4\<rparr>)\<rparr>
        (KeyDown \<lparr>keyCode = 8, key = ''Backspace''\<rparr>) = Inr (c1, out1)
    \<and> dispatch (\<lambda>w. w) \<lparr>p_type = Text, p_value = [], has_onChange = True, has_onKeyDown = False\<rparr> c1 (Input ''x a'' 3) = Inr (c2, out2)
    \<and> stack (st c2) = ''a''"
proof -
  let ?p = "\<lparr>p_type = Text, p_value = [], has_onChange = True, has_onKeyDown = False\<rparr>"
  let ?i = "\<lparr>tagName = INPUT, dom_value = [], selectionStart = 0, offsetLeft = 0,
              offsetTop = 0, offsetWidth = 100, offsetHeight = 20, mirror_layout = (\<lambda>a b. (0, 0))\<rparr>\<lparr>dom_value := ''x ab'', selectionStart := 4\<rparr>"
  let ?c = "\<lparr>st = init_state\<lparr>value' := ''x ab'', stack := ''ab''\<rparr>, dom = Some ?i\<rparr>"
  have h: "component.dom ?c = Some ?i" "stack (st ?c) \<noteq> []"
          "stack (st ?c) = trailing_run (take (selectionStart ?i) (value' (st ?c)))"
          "0 < selectionStart ?i" "selectionStart ?i \<le> length (value' (st ?c))"
    by (simp_all add: init_state_def trailing_run_def is_sep_def)
  obtain c1 out1 c2 out2 where
      a: "dispatch (\<lambda>w. w) ?p ?c (KeyDown \<lparr>keyCode = 8, key = ''Backspace''\<rparr>) = Inr (c1, out1)"
    and b: "dispatch (\<lambda>w. w) ?p c1 (Input (take (selectionStart ?i - 1) (value' (st ?c)) @ drop (selectionStart ?i) (value' (st ?c)))
                          (selectionStart ?i - 1)) = Inr (c2, out2)"
    and v: "value' (st c2) = take (selectionStart ?i - 1) (value' (st ?c)) @ drop (selectionStart ?i) (value' (st ?c))"
    and r: "stack (st c2) = trailing_run (take (selectionStart ?i - 1) (value' (st c2)))"
    using erasing_tracks_run [of ?c ?i "\<lambda>w. w" ?p, OF h] by blast
  have e1: "take (selectionStart ?i - 1) (value' (st ?c)) @ drop (selectionStart ?i) (value' (st ?c)) = ''x a''"
    by (simp add: init_state_def numeral_eq_Suc)
  have e2: "selectionStart ?i - 1 = 3" by simp
  have e3: "trailing_run (take 3 ''x a'') = ''a''" by (simp add: trailing_run_def is_sep_def)
  from a b [unfolded e1 e2] v [unfolded e1] r [unfolded e2] e3 show ?thesis by auto
qed

text \<open>
  C23. A mounted component never throws: from every reachable state, every sequence of
  notifications runs to completion (no \<open>TypeError\<close>: the element stays attached
  and the selected slot always exists).
\<close>

theorem mounted_never_throws:
  assumes "reachable parse p c"
  shows "\<exists>c' out. run parse p c es = Inr (c', out)"
  using assms
proof (induction es arbitrary: c)
  case Nil
  then show ?case by simp
next
  case (Cons e es)
  from Cons.prems have "session_inv p c" by (rule reachable_session_inv)
  then obtain c1 out1 where d: "dispatch parse p c e = Inr (c1, out1)"
    using dispatch_returns by blast
  with Cons.prems have "reachable parse p c1" by (rule reachable.step)
  with Cons.IH obtain c2 out2 where "run parse p c1 es = Inr (c2, out2)" by blast
  with d show ?case by simp
qed

theorem mounted_never_throws_witness:
  "\<exists>c' out. run (\<lambda>w. w) \<lparr>p_type = Text, p_value = [], has_onChange = True, has_onKeyDown = False\<rparr> \<lparr>st = init_state, dom = Some \<lparr>tagName = INPUT, dom_value = [], selectionStart = 0, offsetLeft = 0,
              offsetTop = 0, offsetWidth = 100, offsetHeight = 20, mirror_layout = (\<lambda>a b. (0, 0))\<rparr>\<rparr>
      [Mount, KeyDown \<lparr>keyCode = 13, key = ''Enter''\<rparr>, Blur, KeyDown \<lparr>keyCode = 8, key = ''Backspace''\<rparr>]
    = Inr (c', out)"
proof -
  have "reachable (\<lambda>w. w) \<lparr>p_type = Text, p_value = [], has_onChange = True, has_onKeyDown = False\<rparr> \<lparr>st = init_state, dom = Some \<lparr>tagName = INPUT, dom_value = [], selectionStart = 0, offsetLeft = 0,
              offsetTop = 0, offsetWidth = 100, offsetHeight = 20, mirror_layout = (\<lambda>a b. (0, 0))\<rparr>\<rparr>"
    by (rule reachable.start) (simp_all add: surface_tag_def)
  then show ?thesis by (rule mounted_never_throws)
qed

text \<open>
  C26. The spec's ordering hazard: the code relies on the key-down being handled before
  the change it causes. Delivered the other way round (the edit first), the key re-reads
  a run that already contains the typed letter and doubles it, slot 0 still holds the
  transliteration of the old, empty stack, and the next Space erases the typed word.
\<close>

theorem ordering_hazard_erases_word:
  assumes "parse [] = []" and "p_value p = []" and "dom_value i = []" and "selectionStart i = 0"
  shows "\<exists>c1 out1 c' out. run parse p \<lparr>st = init_state, dom = Some i\<rparr>
      [Mount, Input ''a'' 1, KeyDown \<lparr>keyCode = 65, key = ''a''\<rparr>] = Inr (c1, out1)
    \<and> stack (st c1) = ''aa'' \<and> suggestionList (st c1) ! 0 = []
    \<and> dispatch parse p c1 (KeyDown \<lparr>keyCode = 32, key = '' ''\<rparr>) = Inr (c', out)
    \<and> value' (st c') = []"
  using assms by (simp add: run_eval)

theorem ordering_hazard_erases_word_witness:
  "\<exists>c1 out1 c' out. run rev \<lparr>p_type = Text, p_value = [], has_onChange = True, has_onKeyDown = False\<rparr> \<lparr>st = init_state, dom = Some \<lparr>tagName = INPUT, dom_value = [], selectionStart = 0, offsetLeft = 0,
              offsetTop = 0, offsetWidth = 100, offsetHeight = 20, mirror_layout = (\<lambda>a b. (0, 0))\<rparr>\<rparr>
      [Mount, Input ''a'' 1, KeyDown \<lparr>keyCode = 65, key = ''a''\<rparr>] = Inr (c1, out1)
    \<and> stack (st c1) = ''aa'' \<and> suggestionList (st c1) ! 0 = []
    \<and> dispatch rev \<lparr>p_type = Text, p_value = [], has_onChange = True, has_onKeyDown = False\<rparr> c1 (KeyDown \<lparr>keyCode = 32, key = '' ''\<rparr>) = Inr (c', out)
    \<and> value' (st c') = []"
  using ordering_hazard_erases_word [of rev "\<lparr>p_type = Text, p_value = [], has_onChange = True, has_onKeyDown = False\<rparr>" "\<lparr>tagName = INPUT, dom_value = [], selectionStart = 0, offsetLeft = 0,
              offsetTop = 0, offsetWidth = 100, offsetHeight = 20, mirror_layout = (\<lambda>a b. (0, 0))\<rparr>"] by simp

end
