(* ===== verification/Render.thy ===== *)
theory Render
  imports Session
begin

text \<open>
  What \<open>render\<close> (lines 215--257 of \<open>src/src/avro/AvroInput.tsx\<close>) draws: a
  \<open><div>\<close> holding the text control and, after it, the overlay of
  \<open>renderAvroSuggestion\<close>. The control's attributes are a JSX object literal: the
  props other than \<open>suggestionStyle\<close> are spread first (\<open>{...othersProp}\<close>), then
  \<open>render\<close> writes its own keys, and a later key of an object literal replaces an
  earlier one. The props record of the model carries the props that have behaviour:
  \<open>type\<close>, \<open>value\<close>, \<open>onChange\<close> and \<open>onKeyDown\<close> (placeholder, class
  and styles are presentation and are not modelled). A handler attribute is named by
  the function it holds: one of the component's bound methods, or a callback of the
  embedding application passed through the props.
\<close>

datatype handler = HandleKeyPress | HandleChange | HandleBlurChange | PropOnChange | PropOnKeyDown

datatype attr = AStr jstr | AHandler handler

text \<open>An object literal: the value of a key is the one written last.\<close>

definition jsx_attrs :: "(jstr \<times> attr) list \<Rightarrow> jstr \<Rightarrow> attr option" where
  "jsx_attrs xs = map_of (rev xs)"

text \<open>
  \<open>const { suggestionStyle, ...othersProp } = this.props\<close>: the props with
  behaviour, \<open>type\<close> resolved by \<open>defaultProps\<close> and optional callbacks present
  only when the embedding passes them.
\<close>

definition othersProp :: "props \<Rightarrow> (jstr \<times> attr) list" where
  "othersProp p =
     [(''type'', AStr (if p_type p = Textarea then ''textarea'' else ''text'')),
      (''value'', AStr (p_value p))]
     @ (if has_onChange p then [(''onChange'', AHandler PropOnChange)] else [])
     @ (if has_onKeyDown p then [(''onKeyDown'', AHandler PropOnKeyDown)] else [])"

record element =
  el_tag :: tag
  el_attrs :: "jstr \<Rightarrow> attr option"

definition render_control :: "props \<Rightarrow> avro_state \<Rightarrow> element" where
  "render_control p s =
     (if p_type p = Textarea then
        \<lparr>el_tag = TEXTAREA,
         el_attrs = jsx_attrs (othersProp p @
           [(''value'', AStr (value' s)), (''onKeyDown'', AHandler HandleKeyPress),
            (''onChange'', AHandler HandleChange)])\<rparr>
      else
        \<lparr>el_tag = INPUT,
         el_attrs = jsx_attrs (othersProp p @
           [(''type'', AStr ''text''), (''value'', AStr (value' s)),
            (''onKeyDown'', AHandler HandleKeyPress), (''onChange'', AHandler HandleChange),
            (''onBlur'', AHandler HandleBlurChange)])\<rparr>)"

text \<open>
  The tree \<open>render\<close> returns: the control, then the overlay. The control is built
  first; the overlay is computed in the returned tree and its \<open>TypeError\<close> escapes
  \<open>render\<close>.
\<close>

record view =
  v_control :: element
  v_overlay :: "overlay option"

definition render :: "props \<Rightarrow> avro_state \<Rightarrow> js_error + view" where
  "render p s =
     (let input = render_control p s
      in case renderAvroSuggestion s of
           Inl e \<Rightarrow> Inl e
         | Inr ov \<Rightarrow> Inr \<lparr>v_control = input, v_overlay = ov\<rparr>)"

subsection \<open>Object literals\<close>

lemma jsx_attrs_append:
  "jsx_attrs (xs @ ys) k = (case jsx_attrs ys k of None \<Rightarrow> jsx_attrs xs k | Some v \<Rightarrow> Some v)"
  unfolding jsx_attrs_def by (simp add: map_add_def)

lemma othersProp_onBlur: "jsx_attrs (othersProp p) ''onBlur'' = None"
  by (simp add: jsx_attrs_def othersProp_def)

lemma render_control_tag: "el_tag (render_control p s) = surface_tag p"
  unfolding render_control_def surface_tag_def by simp

lemma render_control_value: "el_attrs (render_control p s) ''value'' = Some (AStr (value' s))"
  by (simp add: render_control_def jsx_attrs_append jsx_attrs_def)

lemma render_Inr:
  assumes "wf_state s"
  shows "\<exists>v. render p s = Inr v \<and> v_control v = render_control p s
           \<and> (v_overlay v = None \<longleftrightarrow> suggestionList s ! 0 = [])"
  using assms by (simp add: render_def renderAvroSuggestion_def js_index_def wf_state_def)

subsection \<open>Properties of the rendered tree\<close>

text \<open>
  C24. The control \<open>render\<close> draws is the kind of element the props ask for, shows
  the state's value, sends its edits to \<open>handleChange\<close> and its key-downs to
  \<open>handleKeyPress\<close>, and sends focus loss to \<open>handleBlurChange\<close> only when it
  is the single-line \<open><input>\<close>; the textarea keeps \<open>type="textarea"\<close> from
  the spread, the input is forced to \<open>type="text"\<close>.
\<close>

theorem render_control_attributes:
  "el_tag (render_control p s) = surface_tag p
   \<and> el_attrs (render_control p s) ''value'' = Some (AStr (value' s))
   \<and> el_attrs (render_control p s) ''onChange'' = Some (AHandler HandleChange)
   \<and> el_attrs (render_control p s) ''onKeyDown'' = Some (AHandler HandleKeyPress)
   \<and> el_attrs (render_control p s) ''onBlur'' =
       (if blur_attached p then Some (AHandler HandleBlurChange) else None)
   \<and> el_attrs (render_control p s) ''type'' =
       Some (AStr (if p_type p = Textarea then ''textarea'' else ''text''))"
  by (simp add: render_control_def surface_tag_def jsx_attrs_append othersProp_onBlur blur_attached_def)
     (simp add: jsx_attrs_def othersProp_def)

text \<open>
  C25. In every state a mounted component reaches, \<open>render\<close> returns without
  throwing, and the control it draws is the element the session tracks: the same
  kind, showing the same text; the overlay is drawn exactly when slot 0 is non-empty.
\<close>

theorem reachable_render_matches_dom:
  assumes "reachable parse p c"
  shows "\<exists>i v. dom c = Some i \<and> render p (st c) = Inr v
           \<and> el_tag (v_control v) = tagName i
           \<and> el_attrs (v_control v) ''value'' = Some (AStr (dom_value i))
           \<and> (v_overlay v = None \<longleftrightarrow> suggestionList (st c) ! 0 = [])"
proof -
  from reachable_session_inv [OF assms] obtain i where
    i: "dom c = Some i" "tagName i = surface_tag p" "dom_value i = value' (st c)"
    and ss: "single_slot (st c)"
    by (auto simp: session_inv_def)
  from render_Inr [OF single_slot_wf [OF ss], of p] obtain v where
    v: "render p (st c) = Inr v \<and> v_control v = render_control p (st c)
        \<and> (v_overlay v = None \<longleftrightarrow> suggestionList (st c) ! 0 = [])"
    by (elim exE)
  with i show ?thesis by (auto simp: render_control_tag render_control_value)
qed

theorem reachable_render_matches_dom_witness:
  "render \<lparr>p_type = Textarea, p_value = [], has_onChange = False, has_onKeyDown = True\<rparr> init_state
     \<noteq> Inl TypeError
   \<and> v_overlay (projr (render \<lparr>p_type = Textarea, p_value = [], has_onChange = False, has_onKeyDown = True\<rparr>
       init_state)) = None"
proof -
  have r: "reachable (\<lambda>x. x) \<lparr>p_type = Textarea, p_value = [], has_onChange = False, has_onKeyDown = True\<rparr>
      \<lparr>st = init_state, dom = Some \<lparr>tagName = TEXTAREA, dom_value = [], selectionStart = 0, offsetLeft = 0,
              offsetTop = 0, offsetWidth = 100, offsetHeight = 20, mirror_layout = (\<lambda>a b. (0, 0))\<rparr>\<rparr>"
    by (rule reachable.start) (simp_all add: surface_tag_def)
  from reachable_render_matches_dom [OF r] show ?thesis
    by (auto simp: init_state_def)
qed

end
