(* ===== verification/App.thy ===== *)
theory App
  imports Render
begin

text \<open>
  The demo page \<open>App\<close> (\<open>src/src/App.tsx\<close>, lines 5--21) renders two
  \<open>AvroInput\<close> fields: a single-line field that logs every value passed to its
  \<open>onChange\<close>, and a textarea that logs every event passed to its \<open>onKeyDown\<close>
  and gives no \<open>onChange\<close>. The page has no state; it is its two prop records.
\<close>

definition app_text_props :: props where
  "app_text_props = \<lparr>p_type = Text, p_value = [], has_onChange = True, has_onKeyDown = False\<rparr>"

definition app_textarea_props :: props where
  "app_textarea_props = \<lparr>p_type = Textarea, p_value = [], has_onChange = False, has_onKeyDown = True\<rparr>"

definition app_fields :: "props list" where
  "app_fields = [app_text_props, app_textarea_props]"

text \<open>
  C22. What the demo page observes: in the single-line field every commit is reported
  once through \<open>onChange\<close> with the committed text, and Enter's default is
  suppressed without being forwarded; in the textarea no commit is ever reported (it
  has no \<open>onChange\<close>), and only Enter reaches the page, through \<open>onKeyDown\<close>.
\<close>

theorem app_observed_callbacks:
  assumes "is_commit_key (keyCode ev)"
  shows "(handleKeyPress parse app_text_props ti ev s = Inr (s', eff) \<longrightarrow>
            calls eff = OnChange (value' s') # (if keyCode ev = 13 then [PreventDefault] else []))
       \<and> (handleKeyPress parse app_textarea_props ti ev s = Inr (s', eff) \<longrightarrow>
            calls eff = (if keyCode ev = 13 then [PreventDefault, OnKeyDown ev] else []))"
  using assms
  by (simp add: handleKeyPress_commit commit_key_calls commit_calls_def app_text_props_def
                app_textarea_props_def)

theorem app_observed_callbacks_witness:
  "calls (snd (projr (handleKeyPress (\<lambda>w. w) app_textarea_props
       (Some \<lparr>tagName = TEXTAREA, dom_value = ''ab'', selectionStart = 2, offsetLeft = 0,
              offsetTop = 0, offsetWidth = 100, offsetHeight = 20, mirror_layout = (\<lambda>a b. (0, 0))\<rparr>)
       \<lparr>keyCode = 13, key = ''Enter''\<rparr> init_state)))
   = [PreventDefault, OnKeyDown \<lparr>keyCode = 13, key = ''Enter''\<rparr>]"
proof -
  let ?i = "\<lparr>tagName = TEXTAREA, dom_value = ''ab'', selectionStart = 2, offsetLeft = 0,
              offsetTop = 0, offsetWidth = 100, offsetHeight = 20, mirror_layout = (\<lambda>a b. (0, 0))\<rparr>"
  let ?e = "\<lparr>keyCode = 13, key = ''Enter''\<rparr>"
  obtain r where r: "handleKeyPress (\<lambda>w. w) app_textarea_props (Some ?i) ?e init_state = Inr r"
    by (simp add: handleKeyPress_commit is_commit_key_def commit_key_def init_state_def
                  commit_text_fallback updateSuggestionPos_Some)
  have "calls (snd r) = [PreventDefault, OnKeyDown ?e]"
    using app_observed_callbacks [of ?e "\<lambda>w. w" "Some ?i" init_state "fst r" "snd r"] r
    by (simp add: is_commit_key_def)
  with r show ?thesis by simp
qed

end
