(* ===== verification/Spec2Isabelle.thy ===== *)
theory Spec2Isabelle
  imports App
begin

text \<open>
  \<^bold>\<open>A verification library for AvroInput.\<close>
  The repository is one React component, \<open>class AvroInput\<close> in
  \<open>src/src/avro/AvroInput.tsx\<close>, and a demo page (\<open>src/src/App.tsx\<close>) that
  renders two instances. The component keeps the text of an \<open><input>\<close> or
  \<open><textarea>\<close>, the phonetic token being typed (the \<^emph>\<open>stack\<close>), a suggestion list
  whose slot 0 holds the transliteration of the stack, the selected index, and the
  pixel anchor of the suggestion overlay. Key-down, change and blur notifications of
  the element drive it; it calls the transliteration function \<open>avro.parse\<close> of
  \<open>./avro-lib\<close> and reports committed text through \<open>props.onChange\<close>.

  \<^bold>\<open>Theories and what they model.\<close>
  \<^item> \<open>Prelude\<close>: the JavaScript built-ins the code calls, with their clamping rules
    (\<open>substring\<close> as \<open>js_substring0\<close>, \<open>slice(0, -n)\<close> as \<open>js_slice_neg\<close>
    including \<open>-0 = 0\<close>, \<open>substr\<close> as \<open>js_substr\<close>/\<open>js_substr_from\<close>,
    \<open>split(/\n| /)\<close> as the scan \<open>split_acc\<close>, array reads as \<open>js_index\<close>
    (\<open>None\<close> for \<open>undefined\<close>), the array write \<open>arr[0] = x\<close> as \<open>js_set0\<close>),
    the \<open>TypeError\<close> of a property read on \<open>null\<close>/\<open>undefined\<close>, and the
    reference reading \<open>trailing_run\<close> of the last split segment. A string is a list
    of \<open>char\<close>, one per UTF-16 code unit, so \<open>length\<close> is \<open>.length\<close>.
  \<^item> \<open>Stack\<close>: \<open>getCurrentStack\<close> (lines 155--159) and \<open>getStackRange\<close>
    (161--170); the transliteration function is the parameter type \<open>translit\<close>.
  \<^item> \<open>State\<close>: \<open>AvroInputState\<close> (17--24) as the record \<open>avro_state\<close>, the
    constructor's state \<open>init_state\<close> (31--40), the in-place write of slot 0
    (\<open>set_slot0\<close>), and the invariant \<open>wf_state\<close> (a slot exists, the index is
    inside the list).
  \<^item> \<open>Suggestions\<close>: the Up/Down moves \<open>cycle_up\<close>/\<open>cycle_down\<close> (121--134)
    and \<open>renderAvroSuggestion\<close> (185--213) as an \<open>overlay option\<close>.
  \<^item> \<open>Resolver\<close>: \<open>getCursorXY\<close> (315--353) over the record \<open>surface\<close> (the
    DOM element: tag, text, caret, offsets, size and the browser's layout of the
    hidden mirror as the function \<open>mirror_layout\<close>), \<open>caret_anchor\<close> and
    \<open>updateSuggestionPos\<close> (172--183).
  \<^item> \<open>Controller\<close>: the handlers \<open>componentDidMount\<close> (49--55),
    \<open>handleChange\<close> (57--70), \<open>handleKeyPress\<close> (72--142, with its commit branch
    split into \<open>commit_text\<close>, \<open>commit_key\<close> and \<open>commit_calls\<close>) and
    \<open>handleBlurChange\<close> (144--153), and the handler attachment of \<open>render\<close>
    (\<open>surface_tag\<close>, \<open>blur_attached\<close>). A handler maps the state before the event
    to the state after it, or to \<open>Inl TypeError\<close> when the code throws. React
    batches a handler's \<open>setState\<close> calls, so each handler reads the state and the
    DOM element as they were before the event; the model follows that. The calls the
    component makes to the application are an ordered \<open>callback list\<close>; the caret
    the \<open>setState\<close> callback restores is \<open>caret_set\<close>.
  \<^item> \<open>Session\<close>: a mounted component over a list of events (\<open>dispatch\<close>,
    \<open>run\<close>), with React's re-render of the controlled element (\<open>rerender\<close>) and
    the browser's editing as \<open>Input\<close> events carrying the new text and caret, and
    caret moves without an edit as \<open>Caret\<close> events; the reachable states as the
    inductive predicate \<open>reachable\<close>; the keystrokes of a word typed at the end of
    the text as the event list \<open>typing\<close>. The re-render and the browser's editing
    are modelled from the spec's host-surface contract.
  \<^item> \<open>Render\<close>: \<open>render\<close> (215--257) as the tree it returns: the control,
    whose attributes are the JSX object literal (the props spread first by
    \<open>othersProp\<close>, then the component's own keys; \<open>jsx_attrs\<close> keeps the
    last value of each key), and the overlay of \<open>renderAvroSuggestion\<close>.
  \<^item> \<open>App\<close>: the demo page's two fields as prop records (\<open>app_text_props\<close>,
    \<open>app_textarea_props\<close>) and \<open>AvroInput.defaultProps\<close> as \<open>default_props\<close>
    (in \<open>Controller\<close>).
  \<^item> This theory: the spec's composition contract (\<open>classify\<close>,
    \<open>spec_stack\<close>) and the refinement theorem relating \<open>handleKeyPress\<close> to it.

  \<^bold>\<open>What is proved.\<close>
  The properties are stated right after a text block naming their claim id.
  \<^item> Commit (C1, C2, C11, C15): the splice of the selected suggestion over the
    stack, with the caret after it; the whole-value fallback with an empty stack; the
    exact order of the application callbacks; agreement of the two caret computations.
  \<^item> Composition (C3, C4, C5, C6, C7, C10): the current run is the maximal
    separator-free run before the caret (equivalence of the split-based code with
    \<open>trailing_run\<close>); the effect of word keys, Backspace, value changes, focus loss
    and the arrow keys on every branch.
  \<^item> Sessions (C8, C20, C21): typing any separator-free word after a separator,
    then Space, commits its transliteration with one \<open>onChange\<close> call (induction
    over the word, composing runs with \<open>run_append\<close>); typing and erasing, each
    key-down handled before its edit, keep the stack equal to the run before the caret.
  \<^item> Invariant (C9): in every reachable state the list has exactly one slot and the
    index is 0 (rule induction over \<open>reachable\<close> with the invariant
    \<open>session_inv\<close>), so the arrow keys never change the component.
  \<^item> Refinement (C19): on every branch, \<open>handleKeyPress\<close> changes the stack as the
    contract \<open>spec_stack\<close> prescribes for the key's class.
  \<^item> Resolver (C12, C13): bounds of the anchor, and how it moves with the element.
    Overlay (C16): visibility and highlighting.
  \<^item> Errors and defects (C14, C17, C18, C23, C26): the \<open>TypeError\<close> of a detached
    element; no \<open>TypeError\<close> ever once mounted; the stack corruption by shortcut keys
    and by caret moves; the spec's ordering hazard (an edit handled before its key-down).
  \<^item> Demo page (C22): which callbacks each of its two fields delivers.
  \<^item> Rendering (C24, C25): the control \<open>render\<close> draws carries the state's
    value and the component's own handlers (\<open>onBlur\<close> only on the
    \<open><input>\<close>; the embedding's \<open>onChange\<close>/\<open>onKeyDown\<close> spread onto it are
    overridden), and in every reachable state \<open>render\<close> does not throw and draws
    the element the session tracks (which justifies the \<open>Session\<close> model's use of
    \<open>surface_tag\<close> and \<open>blur_attached\<close>).

  \<^bold>\<open>Findings\<close> (stated as theorems): the anchor is recomputed on a value change
  when the value \<^emph>\<open>before\<close> it was empty and on Backspace when the stack was
  \<^emph>\<open>already\<close> empty (C5, C6), not as the spec says; \<open>offsetTop\<close> is added twice,
  so the overlay moves twice as far as the element (C13); the suggestion list never has
  more than one slot, so cycling is dead code (C9); a detached element throws instead of
  ignoring the key (C14); a commit key right after a commit finds the stack empty and
  transliterates the whole, already transliterated value again (C2); shortcut keys in
  the word range (C17) and caret moves without an edit (C18) leave a stack that no
  longer ends at the caret and corrupt the next commit; a textarea has no
  \<open>onBlur\<close> and never abandons its composition on focus loss (C24).

  \<^bold>\<open>Bounds and termination.\<close> Every function is structurally recursive (the split
  scan over the string, \<open>run\<close> over the event list) or non-recursive; there is no
  loop that may diverge and no fuel. Pixel offsets are \<open>int\<close> (JavaScript numbers
  that stay small integers here), indices and caret offsets \<open>nat\<close>.

  \<^bold>\<open>Not modelled.\<close> \<open>avro.parse\<close> (not among the sources; a parameter), the
  browser's text layout (the parameter \<open>mirror_layout\<close>), the presentation-only
  props and attributes (placeholder, class name, styles), \<open>propTypes\<close> (a
  development-time check; its \<open>oneOf(['text', 'textarea'])\<close> is the datatype
  \<open>input_type\<close>), and the console logging of \<open>App.tsx\<close>.
\<close>

section \<open>The composition contract and its refinement\<close>

text \<open>
  The spec's composition state machine (section 4.1) classifies each key and says
  what becomes of the stack: a word character makes it the run before the caret
  followed by the character, a commit key empties it, Backspace drops its last
  character, cycling and other keys keep it. The classification follows the guard
  order of the handler; the cycle class needs more than one suggestion.
\<close>

datatype key_class = WordChar jstr | CommitKey | CycleKey | EraseKey | OtherKey

definition classify :: "key_event \<Rightarrow> nat \<Rightarrow> key_class" where
  "classify ev len =
     (if is_word_key (keyCode ev) then WordChar (key ev)
      else if is_commit_key (keyCode ev) then CommitKey
      else if 1 < len \<and> (keyCode ev = 38 \<or> keyCode ev = 40) then CycleKey
      else if keyCode ev = 8 then EraseKey
      else OtherKey)"

fun spec_stack :: "jstr \<Rightarrow> key_class \<Rightarrow> jstr \<Rightarrow> jstr" where
  "spec_stack cur (WordChar t) old = cur @ t"
| "spec_stack cur CommitKey old = []"
| "spec_stack cur CycleKey old = old"
| "spec_stack cur EraseKey old = butlast old"
| "spec_stack cur OtherKey old = old"

text \<open>
  C19. \<open>handleKeyPress\<close> refines the contract: whenever it returns on an attached
  element, the new stack is the one the contract prescribes for the key's class (with
  the run before the caret as the current run), and every key but a commit key leaves
  the value alone and calls nothing.
\<close>

theorem handleKeyPress_refines_stack_spec:
  assumes "handleKeyPress parse p (Some input) ev s = Inr (s', eff)"
  shows "stack s' = spec_stack (trailing_run (take (selectionStart input) (value' s)))
                               (classify ev (length (suggestionList s))) (stack s)
       \<and> (classify ev (length (suggestionList s)) \<noteq> CommitKey \<longrightarrow> value' s' = value' s \<and> calls eff = [])"
proof (cases rule: handleKeyPress_cases [where ev = ev and s = s])
  case word
  with assms show ?thesis
    by (auto simp: classify_def handleKeyPress_word getCurrentStack_trailing_run no_effects_def)
next
  case commit
  then have "\<not> is_word_key (keyCode ev)" by (auto simp: is_word_key_def is_commit_key_def)
  with commit assms show ?thesis
    by (auto simp: classify_def handleKeyPress_commit commit_key_def updateSuggestionPos_Some
             split: sum.splits prod.splits)
next
  case cycle
  then have "\<not> is_word_key (keyCode ev) \<and> \<not> is_commit_key (keyCode ev)"
    by (auto simp: is_word_key_def is_commit_key_def)
  with cycle assms show ?thesis
    by (auto simp: classify_def handleKeyPress_cycle no_effects_def)
next
  case erase
  then have "\<not> is_word_key (keyCode ev) \<and> \<not> is_commit_key (keyCode ev)"
    by (auto simp: is_word_key_def is_commit_key_def)
  with erase assms show ?thesis
    by (auto simp: classify_def handleKeyPress_erase updateSuggestionPos_Some no_effects_def
                   js_slice_neg_def butlast_conv_take split: if_splits)
next
  case other
  with assms show ?thesis
    by (auto simp: classify_def handleKeyPress_other no_effects_def)
qed

theorem handleKeyPress_refines_stack_spec_witness:
  "stack (fst (projr (handleKeyPress (\<lambda>w. w) \<lparr>p_type = Text, p_value = [], has_onChange = True, has_onKeyDown = False\<rparr>
       (Some \<lparr>tagName = INPUT, dom_value = ''x am'', selectionStart = 4, offsetLeft = 0,
              offsetTop = 0, offsetWidth = 100, offsetHeight = 20, mirror_layout = (\<lambda>a b. (0, 0))\<rparr>)
       \<lparr>keyCode = 73, key = ''i''\<rparr>
       \<lparr>value' = ''x am'', stack = ''am'', suggestionList = [''AM''], selectedIndex = 0,
        suggestionLeft = 0, suggestionTop = 0\<rparr>)))
   = ''ami''"
proof -
  let ?p = "\<lparr>p_type = Text, p_value = [], has_onChange = True, has_onKeyDown = False\<rparr>"
  let ?i = "\<lparr>tagName = INPUT, dom_value = ''x am'', selectionStart = 4, offsetLeft = 0,
              offsetTop = 0, offsetWidth = 100, offsetHeight = 20, mirror_layout = (\<lambda>a b. (0, 0))\<rparr>"
  let ?e = "\<lparr>keyCode = 73, key = ''i''\<rparr>"
  let ?s = "\<lparr>value' = ''x am'', stack = ''am'', suggestionList = [''AM''], selectedIndex = 0,
        suggestionLeft = 0, suggestionTop = 0\<rparr>"
  obtain r where r: "handleKeyPress (\<lambda>w. w) ?p (Some ?i) ?e ?s = Inr r"
    by (simp add: handleKeyPress_word is_word_key_def)
  from handleKeyPress_refines_stack_spec [of "\<lambda>w. w" ?p ?i ?e ?s "fst r" "snd r"] r
  have "stack (fst r) = spec_stack (trailing_run ''x am'') (classify ?e 1) ''am''"
    by simp
  also have "\<dots> = ''ami''"
    by (simp add: classify_def is_word_key_def trailing_run_def is_sep_def)
  finally show ?thesis using r by simp
qed

end
